theory Spec2Isabelle
  imports Complex_Main "HOL-Library.AList"
begin

section \<open>Garment sizing: data model\<close>

text \<open>
  The development embeds \<^verbatim>\<open>garment_sizing.py\<close>. Python floats are read as real numbers:
  every measurement, threshold and score below is a \<^typ>\<open>real\<close>, so rounding of the
  binary floating-point format, infinities and NaN are outside the model. Pixel
  coordinates and image extents are Python integers, read as \<^typ>\<open>int\<close> and \<^typ>\<open>nat\<close>.
\<close>

datatype GarmentSize = XS | S | M | L | XL | XXL

text \<open>The string value of each member of the enum \<^verbatim>\<open>GarmentSize\<close>.\<close>

fun GarmentSize_value :: "GarmentSize \<Rightarrow> string" where
  "GarmentSize_value XS = ''XS''"
| "GarmentSize_value S = ''S''"
| "GarmentSize_value M = ''M''"
| "GarmentSize_value L = ''L''"
| "GarmentSize_value XL = ''XL''"
| "GarmentSize_value XXL = ''XXL''"

datatype FitType = TIGHT | PERFECT | LOOSE

fun FitType_value :: "FitType \<Rightarrow> string" where
  "FitType_value TIGHT = ''tight''"
| "FitType_value PERFECT = ''perfect''"
| "FitType_value LOOSE = ''loose''"

text \<open>The dataclass \<^verbatim>\<open>GarmentMeasurements\<close>; its field \<^verbatim>\<open>size\<close> is named \<open>size_g\<close> here.\<close>

record GarmentMeasurements =
  size_g :: GarmentSize
  chest_cm :: real
  length_cm :: real
  shoulder_width_cm :: real
  sleeve_length_cm :: real

record FitAnalysis =
  recommended_size :: GarmentSize
  selected_size :: GarmentSize
  fit_type :: FitType
  chest_difference_cm :: real
  length_difference_cm :: real
  fit_score :: real
  fit_description :: string

datatype error = KeyError | IndexError | ValueError | Cv2Error

definition mk_measurements ::
  "GarmentSize \<Rightarrow> real \<Rightarrow> real \<Rightarrow> real \<Rightarrow> real \<Rightarrow> GarmentMeasurements" where
  "mk_measurements sz c l sh sl =
     \<lparr>size_g = sz, chest_cm = c, length_cm = l, shoulder_width_cm = sh, sleeve_length_cm = sl\<rparr>"

text \<open>
  \<^verbatim>\<open>self.shirt_measurements\<close>: a dict whose iteration order is its insertion order, hence
  an association list.
\<close>

definition shirt_measurements :: "(GarmentSize \<times> GarmentMeasurements) list" where
  "shirt_measurements =
     [(XS, mk_measurements XS 86 66 42 59),
      (S, mk_measurements S 91 68 44 61),
      (M, mk_measurements M 97 70 46 63),
      (L, mk_measurements L 102 72 48 65),
      (XL, mk_measurements XL 107 74 50 67),
      (XXL, mk_measurements XXL 112 76 52 69)]"

text \<open>\<^verbatim>\<open>self.fit_tolerance\<close>: a dict with three fixed string keys, read as a record.\<close>

record FitTolerance =
  perfect_range :: real
  loose_threshold :: real
  tight_threshold :: real

definition fit_tolerance :: FitTolerance where
  "fit_tolerance = \<lparr>perfect_range = 2, loose_threshold = 8, tight_threshold = - 3\<rparr>"

section \<open>Strings\<close>

text \<open>
  A Python string is read as the bytes of its UTF-8 encoding. \<^verbatim>\<open>str.lower\<close> changes the
  case of the ASCII letters and leaves every other byte: its result is only ever compared
  with the ASCII words \<^verbatim>\<open>female\<close> and \<^verbatim>\<open>male\<close>, and no character outside ASCII lower-cases
  to a letter of those two words, so the comparison of the gender is exact.
\<close>

definition lower_char :: "char \<Rightarrow> char" where
  "lower_char c =
     (let n = (of_char c :: nat) in if 65 \<le> n \<and> n \<le> 90 then char_of (n + 32) else c)"

definition lower :: "string \<Rightarrow> string" where
  "lower s = map lower_char s"

definition upper_char :: "char \<Rightarrow> char" where
  "upper_char c =
     (let n = (of_char c :: nat) in if 97 \<le> n \<and> n \<le> 122 then char_of (n - 32) else c)"

text \<open>
  \<^verbatim>\<open>str.upper\<close>. Besides the ASCII letters, Python's case mapping sends ten characters
  outside ASCII to ASCII letters only: the sharp s (bytes \<^verbatim>\<open>C3 9F\<close>) to \<^verbatim>\<open>SS\<close>, the dotless
  i (\<^verbatim>\<open>C4 B1\<close>) to \<^verbatim>\<open>I\<close>, the long s (\<^verbatim>\<open>C5 BF\<close>) to \<^verbatim>\<open>S\<close>, and the seven ligatures
  \<^verbatim>\<open>EF AC 80\<close> to \<^verbatim>\<open>EF AC 86\<close> to \<^verbatim>\<open>FF\<close>, \<^verbatim>\<open>FI\<close>, \<^verbatim>\<open>FL\<close>, \<^verbatim>\<open>FFI\<close>, \<^verbatim>\<open>FFL\<close>, \<^verbatim>\<open>ST\<close>,
  \<^verbatim>\<open>ST\<close>. Every other character outside ASCII has an upper-case form that still holds a
  character outside ASCII; its bytes are left as they are, which no comparison with an
  ASCII word can tell from Python's result, and the result of \<^verbatim>\<open>upper\<close> is only ever
  compared with the six size labels.
\<close>

definition ligature_upper :: "char \<Rightarrow> string" where
  "ligature_upper c =
     (if c = CHR 0x80 then ''FF''
      else if c = CHR 0x81 then ''FI''
      else if c = CHR 0x82 then ''FL''
      else if c = CHR 0x83 then ''FFI''
      else if c = CHR 0x84 then ''FFL''
      else ''ST'')"

definition is_ligature :: "char \<Rightarrow> char \<Rightarrow> char \<Rightarrow> bool" where
  "is_ligature c1 c2 c3 =
     (c1 = CHR 0xEF \<and> c2 = CHR 0xAC \<and>
      (let n = (of_char c3 :: nat) in 128 \<le> n \<and> n \<le> 134))"

text \<open>The upper-case form of a character of two bytes that is pure ASCII, if there is one.\<close>

definition two_byte_upper :: "char \<Rightarrow> char \<Rightarrow> string option" where
  "two_byte_upper c1 c2 =
     (if c1 = CHR 0xC3 \<and> c2 = CHR 0x9F then Some ''SS''
      else if c1 = CHR 0xC4 \<and> c2 = CHR 0xB1 then Some ''I''
      else if c1 = CHR 0xC5 \<and> c2 = CHR 0xBF then Some ''S''
      else None)"

fun upper :: "string \<Rightarrow> string" where
  "upper [] = []"
| "upper [c] = [upper_char c]"
| "upper [c1, c2] =
     (case two_byte_upper c1 c2 of
        Some u \<Rightarrow> u
      | None \<Rightarrow> upper_char c1 # upper [c2])"
| "upper (c1 # c2 # c3 # cs) =
     (if is_ligature c1 c2 c3 then ligature_upper c3 @ upper cs
      else case two_byte_upper c1 c2 of
             Some u \<Rightarrow> u @ upper (c3 # cs)
           | None \<Rightarrow> upper_char c1 # upper (c2 # c3 # cs))"

section \<open>Fit scoring engine\<close>

text \<open>
  The comfort allowance of \<^verbatim>\<open>get_recommended_size\<close> (the \<^verbatim>\<open>if/elif/else\<close> on
  \<^verbatim>\<open>gender.lower()\<close> that adjusts \<^verbatim>\<open>target_chest\<close>).
\<close>

definition target_chest :: "real \<Rightarrow> string \<Rightarrow> real" where
  "target_chest chest_measurement gender =
     (if lower gender = ''female'' then chest_measurement + 2
      else if lower gender = ''male'' then chest_measurement + 4
      else chest_measurement + 3)"

text \<open>
  The loop \<^verbatim>\<open>for size, measurements in self.shirt_measurements.items()\<close>, with the pair
  \<^verbatim>\<open>(best_size, min_difference)\<close> as its state; \<open>None\<close> stands for the initial
  \<^verbatim>\<open>float('inf')\<close>, below which every difference lies.
\<close>

fun closest_loop ::
  "real \<Rightarrow> (GarmentSize \<times> GarmentMeasurements) list \<Rightarrow> GarmentSize \<Rightarrow> real option \<Rightarrow> GarmentSize"
where
  "closest_loop t [] best_size min_difference = best_size"
| "closest_loop t ((sz, ms) # rest) best_size min_difference =
     (let difference = \<bar>chest_cm ms - t\<bar> in
      if (case min_difference of None \<Rightarrow> True | Some d \<Rightarrow> difference < d)
      then closest_loop t rest sz (Some difference)
      else closest_loop t rest best_size min_difference)"

definition get_recommended_size :: "real \<Rightarrow> string \<Rightarrow> GarmentSize" where
  "get_recommended_size chest_measurement gender =
     closest_loop (target_chest chest_measurement gender) shirt_measurements M None"

text \<open>The fit type and description chosen by the \<^verbatim>\<open>if/elif\<close> chain of \<^verbatim>\<open>analyze_fit\<close>.\<close>

definition classify_fit :: "real \<Rightarrow> FitType \<times> string" where
  "classify_fit chest_difference =
     (if chest_difference \<le> tight_threshold fit_tolerance
        then (TIGHT, ''This size will be tight and may restrict movement'')
      else if chest_difference \<ge> loose_threshold fit_tolerance
        then (LOOSE, ''This size will be loose and may look oversized'')
      else if \<bar>chest_difference\<bar> \<le> perfect_range fit_tolerance
        then (PERFECT, ''This size provides an excellent fit'')
      else if chest_difference > 0
        then (LOOSE, ''This size will be somewhat loose but comfortable'')
      else (TIGHT, ''This size will be somewhat snug but wearable''))"

definition analyze_fit :: "real \<Rightarrow> real \<Rightarrow> GarmentSize \<Rightarrow> string \<Rightarrow> error + FitAnalysis" where
  "analyze_fit person_chest person_height selected gender =
     (let recommended = get_recommended_size person_chest gender in
      case map_of shirt_measurements selected of
        None \<Rightarrow> Inl KeyError
      | Some garment_measurements \<Rightarrow>
          (let chest_difference = chest_cm garment_measurements - person_chest;
               length_difference = length_cm garment_measurements - person_height * 0.40;
               (ft, descr) = classify_fit chest_difference;
               chest_penalty = min (\<bar>chest_difference\<bar> * 10) 50;
               length_penalty = min (\<bar>length_difference\<bar> * 5) 20;
               score = max 0 (100 - chest_penalty - length_penalty)
           in Inr \<lparr>recommended_size = recommended, selected_size = selected, fit_type = ft,
                   chest_difference_cm = chest_difference,
                   length_difference_cm = length_difference,
                   fit_score = score, fit_description = descr\<rparr>))"

text \<open>\<^verbatim>\<open>get_available_sizes\<close>: the keys of the catalog, in order.\<close>

definition get_available_sizes :: "GarmentSize list" where
  "get_available_sizes = map fst shirt_measurements"

text \<open>
  The dict literal stored per size by \<^verbatim>\<open>get_size_comparison_data\<close>, with the nested
  \<^verbatim>\<open>measurements\<close> dict.
\<close>

record MeasurementsEntry =
  m_chest :: real
  m_length :: real
  m_shoulder_width :: real
  m_sleeve_length :: real

record SizeEntry =
  is_recommended :: bool
  e_fit_type :: string
  e_fit_score :: real
  e_fit_description :: string
  e_chest_difference :: real
  e_length_difference :: real
  e_measurements :: MeasurementsEntry

record SizeComparison =
  c_recommended_size :: string
  c_person_chest :: real
  c_person_height :: real
  size_analysis :: "(string \<times> SizeEntry) list"

definition size_entry ::
  "GarmentSize \<Rightarrow> GarmentSize \<Rightarrow> FitAnalysis \<Rightarrow> GarmentMeasurements \<Rightarrow> SizeEntry" where
  "size_entry sz recommended analysis measurements =
     \<lparr>is_recommended = (sz = recommended),
      e_fit_type = FitType_value (fit_type analysis),
      e_fit_score = fit_score analysis,
      e_fit_description = fit_description analysis,
      e_chest_difference = chest_difference_cm analysis,
      e_length_difference = length_difference_cm analysis,
      e_measurements =
        \<lparr>m_chest = chest_cm measurements, m_length = length_cm measurements,
         m_shoulder_width = shoulder_width_cm measurements,
         m_sleeve_length = sleeve_length_cm measurements\<rparr>\<rparr>"

text \<open>
  The loop \<^verbatim>\<open>for size in self.get_available_sizes()\<close>; the dict \<^verbatim>\<open>size_data\<close> is an
  association list in insertion order, and \<^verbatim>\<open>size_data[size.value] = ...\<close> is
  \<^const>\<open>AList.update\<close> (an existing key keeps its place, a new one goes last).
\<close>

fun size_data_loop ::
  "real \<Rightarrow> real \<Rightarrow> string \<Rightarrow> GarmentSize \<Rightarrow> GarmentSize list \<Rightarrow>
   (string \<times> SizeEntry) list \<Rightarrow> error + (string \<times> SizeEntry) list"
where
  "size_data_loop person_chest person_height gender recommended [] size_data = Inr size_data"
| "size_data_loop person_chest person_height gender recommended (sz # rest) size_data =
     (case analyze_fit person_chest person_height sz gender of
        Inl e \<Rightarrow> Inl e
      | Inr analysis \<Rightarrow>
          (case map_of shirt_measurements sz of
             None \<Rightarrow> Inl KeyError
           | Some measurements \<Rightarrow>
               size_data_loop person_chest person_height gender recommended rest
                 (AList.update (GarmentSize_value sz)
                    (size_entry sz recommended analysis measurements) size_data)))"

definition get_size_comparison_data :: "real \<Rightarrow> real \<Rightarrow> string \<Rightarrow> error + SizeComparison" where
  "get_size_comparison_data person_chest person_height gender =
     (let recommended = get_recommended_size person_chest gender in
      case size_data_loop person_chest person_height gender recommended
             get_available_sizes [] of
        Inl e \<Rightarrow> Inl e
      | Inr size_data \<Rightarrow>
          Inr \<lparr>c_recommended_size = GarmentSize_value recommended,
               c_person_chest = person_chest, c_person_height = person_height,
               size_analysis = size_data\<rparr>)"

section \<open>Compositing pipeline\<close>

text \<open>
  An image is known by its shape \<^verbatim>\<open>image.shape[:2]\<close> only; pixel values are not
  modelled. A pose landmark is a dict with the keys \<^verbatim>\<open>x\<close> and \<^verbatim>\<open>y\<close>.
\<close>

record image =
  img_h :: nat
  img_w :: nat

record landmark =
  lm_x :: real
  lm_y :: real

text \<open>Python's \<^verbatim>\<open>int(x)\<close> on a float: truncation towards zero.\<close>

definition py_int :: "real \<Rightarrow> int" where
  "py_int x = (if 0 \<le> x then \<lfloor>x\<rfloor> else \<lceil>x\<rceil>)"

text \<open>Indexing a Python list with a non-negative index.\<close>

definition py_index :: "'a list \<Rightarrow> nat \<Rightarrow> error + 'a" where
  "py_index xs i = (if i < length xs then Inr (xs ! i) else Inl IndexError)"

text \<open>
  OpenCV's \<^verbatim>\<open>cv2.resize(src, (w, h))\<close>, a library outside the repository, by its size
  contract: it raises \<^verbatim>\<open>cv2.error\<close> on an empty source and on a target size with a
  dimension that is not positive, and otherwise returns an image of the target size.
\<close>

definition cv2_resize :: "image \<Rightarrow> int \<Rightarrow> int \<Rightarrow> error + image" where
  "cv2_resize src w h =
     (if img_w src = 0 \<or> img_h src = 0 \<or> w \<le> 0 \<or> h \<le> 0 then Inl Cv2Error
      else Inr \<lparr>img_h = nat h, img_w = nat w\<rparr>)"

text \<open>
  The scaling table of \<^verbatim>\<open>apply_garment_overlay\<close>:
  \<open>(scale_factor, alpha, width_adjustment, height_adjustment)\<close> by fit type.
\<close>

definition fit_params :: "FitAnalysis \<Rightarrow> real \<times> real \<times> real \<times> real" where
  "fit_params fit_analysis =
     (let chest_diff = chest_difference_cm fit_analysis in
      if fit_type fit_analysis = TIGHT then (0.75 + chest_diff / 20.0, 0.95, 0.9, 1.05)
      else if fit_type fit_analysis = LOOSE then (1.0 + chest_diff / 15.0, 0.65, 1.2, 1.1)
      else (1.0, 0.8, 1.0, 1.0))"

text \<open>\<open>(new_garment_w, new_garment_h)\<close>.\<close>

definition new_garment_size :: "image \<Rightarrow> FitAnalysis \<Rightarrow> int \<times> int" where
  "new_garment_size garment_image fit_analysis =
     (let garment_h = int (img_h garment_image);
          garment_w = int (img_w garment_image);
          (scale_factor, alpha, width_adjustment, height_adjustment) = fit_params fit_analysis
      in (py_int (real_of_int garment_w * scale_factor * width_adjustment),
          py_int (real_of_int garment_h * scale_factor * height_adjustment)))"

text \<open>
  The positioning block of \<^verbatim>\<open>apply_garment_overlay\<close>: the pair \<open>(center_x, start_y)\<close>
  before clipping. \<^verbatim>\<open>pose_landmarks\<close> is \<^verbatim>\<open>None\<close> or a list; the guard
  \<^verbatim>\<open>pose_landmarks and len(pose_landmarks) > 11\<close> is false for \<^verbatim>\<open>None\<close> and for the empty
  list.
\<close>

definition placement_anchor :: "image \<Rightarrow> FitAnalysis \<Rightarrow> landmark list option \<Rightarrow> error + int \<times> int" where
  "placement_anchor person_image fit_analysis pose_landmarks =
     (let person_h = int (img_h person_image);
          person_w = int (img_w person_image)
      in if (case pose_landmarks of None \<Rightarrow> False | Some lms \<Rightarrow> lms \<noteq> [] \<and> length lms > 11)
         then
           (let lms = the pose_landmarks in
            case py_index lms 11 of
              Inl e \<Rightarrow> Inl e
            | Inr l11 \<Rightarrow>
                (case py_index lms 12 of
                   Inl e \<Rightarrow> Inl e
                 | Inr l12 \<Rightarrow>
                     (let left_shoulder_x = py_int (lm_x l11);
                          right_shoulder_x = py_int (lm_x l12);
                          shoulder_y = py_int ((lm_y l11 + lm_y l12) / 2);
                          center_x = (left_shoulder_x + right_shoulder_x) div 2;
                          start_y =
                            (if fit_type fit_analysis = TIGHT then shoulder_y - 10
                             else if fit_type fit_analysis = LOOSE then shoulder_y - 30
                             else shoulder_y - 20)
                      in Inr (center_x, start_y))))
         else
           (let center_x = person_w div 2;
                start_y =
                  (if fit_type fit_analysis = TIGHT then person_h div 4 + 20
                   else if fit_type fit_analysis = LOOSE then person_h div 4 - 20
                   else person_h div 4)
            in Inr (center_x, start_y)))"

text \<open>
  What \<^verbatim>\<open>apply_garment_overlay\<close> returns: the result image has the shape of the person
  image, and the garment is blended over \<^verbatim>\<open>result[start_y:end_y, start_x:end_x]\<close>. The
  record keeps that rectangle, the anchor it was clipped from, and the garment as blended.
\<close>

record overlay =
  o_result :: image
  o_center_x :: int
  o_anchor_y :: int
  o_start_x :: int
  o_start_y :: int
  o_end_x :: int
  o_end_y :: int
  o_garment :: image
  o_alpha :: real

definition apply_garment_overlay ::
  "image \<Rightarrow> image \<Rightarrow> FitAnalysis \<Rightarrow> landmark list option \<Rightarrow> error + overlay" where
  "apply_garment_overlay person_image garment_image fit_analysis pose_landmarks =
     (let person_h = int (img_h person_image);
          person_w = int (img_w person_image);
          (scale_factor, alpha, width_adjustment, height_adjustment) = fit_params fit_analysis;
          (new_garment_w, new_garment_h) = new_garment_size garment_image fit_analysis
      in case cv2_resize garment_image new_garment_w new_garment_h of
           Inl e \<Rightarrow> Inl e
         | Inr resized_garment \<Rightarrow>
             (case placement_anchor person_image fit_analysis pose_landmarks of
                Inl e \<Rightarrow> Inl e
              | Inr (center_x, anchor_y) \<Rightarrow>
                  (let start_x = center_x - new_garment_w div 2;
                       start_x = max 0 (min start_x (person_w - new_garment_w));
                       start_y = max 0 (min anchor_y (person_h - new_garment_h));
                       end_x = min (start_x + new_garment_w) person_w;
                       end_y = min (start_y + new_garment_h) person_h;
                       actual_w = end_x - start_x;
                       actual_h = end_y - start_y
                   in case (if actual_w \<noteq> new_garment_w \<or> actual_h \<noteq> new_garment_h
                            then cv2_resize resized_garment actual_w actual_h
                            else Inr resized_garment) of
                        Inl e \<Rightarrow> Inl e
                      | Inr blended_garment \<Rightarrow>
                          Inr \<lparr>o_result = person_image, o_center_x = center_x,
                               o_anchor_y = anchor_y, o_start_x = start_x, o_start_y = start_y,
                               o_end_x = end_x, o_end_y = end_y, o_garment = blended_garment,
                               o_alpha = alpha\<rparr>)))"

text \<open>
  \<^verbatim>\<open>create_size_comparison_grid\<close>: one overlay per size of \<^verbatim>\<open>[S, M, L]\<close>, each resized to
  \<open>300 \<times> 400\<close>, stacked horizontally.
\<close>

fun grid_overlays ::
  "image \<Rightarrow> image \<Rightarrow> real \<Rightarrow> real \<Rightarrow> string \<Rightarrow> landmark list option \<Rightarrow>
   GarmentSize list \<Rightarrow> error + image list"
where
  "grid_overlays person_image garment_image person_chest person_height gender pose_landmarks [] =
     Inr []"
| "grid_overlays person_image garment_image person_chest person_height gender pose_landmarks
     (sz # rest) =
     (case analyze_fit person_chest person_height sz gender of
        Inl e \<Rightarrow> Inl e
      | Inr fit_analysis \<Rightarrow>
          (case apply_garment_overlay person_image garment_image fit_analysis pose_landmarks of
             Inl e \<Rightarrow> Inl e
           | Inr try_on_result \<Rightarrow>
               (case grid_overlays person_image garment_image person_chest person_height gender
                       pose_landmarks rest of
                  Inl e \<Rightarrow> Inl e
                | Inr images \<Rightarrow> Inr (o_result try_on_result # images))))"

fun resize_all :: "image list \<Rightarrow> error + image list" where
  "resize_all [] = Inr []"
| "resize_all (img # imgs) =
     (case cv2_resize img 300 400 of
        Inl e \<Rightarrow> Inl e
      | Inr resized \<Rightarrow>
          (case resize_all imgs of Inl e \<Rightarrow> Inl e | Inr rs \<Rightarrow> Inr (resized # rs)))"

text \<open>\<^verbatim>\<open>np.hstack\<close> of images of one height.\<close>

definition hstack :: "image list \<Rightarrow> image" where
  "hstack imgs = \<lparr>img_h = (case imgs of [] \<Rightarrow> 0 | i # _ \<Rightarrow> img_h i), img_w = sum_list (map img_w imgs)\<rparr>"

definition create_size_comparison_grid ::
  "image \<Rightarrow> image \<Rightarrow> real \<Rightarrow> real \<Rightarrow> string \<Rightarrow> landmark list option \<Rightarrow> error + image" where
  "create_size_comparison_grid person_image garment_image person_chest person_height gender
     pose_landmarks =
     (case grid_overlays person_image garment_image person_chest person_height gender
             pose_landmarks [S, M, L] of
        Inl e \<Rightarrow> Inl e
      | Inr images \<Rightarrow>
          (case resize_all images of Inl e \<Rightarrow> Inl e | Inr resized_images \<Rightarrow> Inr (hstack resized_images)))"

text \<open>
  \<^verbatim>\<open>GarmentSize(value)\<close>: the member with that value, \<^verbatim>\<open>ValueError\<close> when there is none.
\<close>

definition GarmentSize_of_value :: "string \<Rightarrow> error + GarmentSize" where
  "GarmentSize_of_value v =
     (if v = ''XS'' then Inr XS
      else if v = ''S'' then Inr S
      else if v = ''M'' then Inr M
      else if v = ''L'' then Inr L
      else if v = ''XL'' then Inr XL
      else if v = ''XXL'' then Inr XXL
      else Inl ValueError)"

text \<open>
  The \<^verbatim>\<open>try/except ValueError\<close> of \<^verbatim>\<open>process_virtual_tryon_with_sizing\<close> that turns the
  size string into a member of the enum.
\<close>

definition size_enum_of :: "string \<Rightarrow> GarmentSize" where
  "size_enum_of selected =
     (case GarmentSize_of_value (upper selected) of
        Inr sz \<Rightarrow> sz
      | Inl e \<Rightarrow> M)"

text \<open>
  \<^verbatim>\<open>process_virtual_tryon_with_sizing\<close>. The two arguments \<^verbatim>\<open>person_image\<close> and
  \<^verbatim>\<open>garment_image\<close> are what \<^verbatim>\<open>cv2.imread\<close> returned for the two paths (\<open>None\<close> when the
  file could not be read); the images of the result are returned as they are, before
  their encoding to base64.
\<close>

record tryon_result =
  r_success :: bool
  r_try_on_result :: overlay
  r_comparison_grid :: image
  r_fit_analysis :: FitAnalysis
  r_size_data :: SizeComparison

definition process_virtual_tryon_with_sizing ::
  "image option \<Rightarrow> image option \<Rightarrow> real \<Rightarrow> real \<Rightarrow> string \<Rightarrow> string \<Rightarrow>
   landmark list option \<Rightarrow> error + tryon_result" where
  "process_virtual_tryon_with_sizing person_image garment_image person_chest person_height
     selected gender pose_landmarks =
     (case (person_image, garment_image) of
        (Some person, Some garment) \<Rightarrow>
          (let size_enum = size_enum_of selected in
           case analyze_fit person_chest person_height size_enum gender of
             Inl e \<Rightarrow> Inl e
           | Inr fit_analysis \<Rightarrow>
               (case apply_garment_overlay person garment fit_analysis pose_landmarks of
                  Inl e \<Rightarrow> Inl e
                | Inr try_on_result \<Rightarrow>
                    (case create_size_comparison_grid person garment person_chest person_height
                            gender pose_landmarks of
                       Inl e \<Rightarrow> Inl e
                     | Inr comparison_grid \<Rightarrow>
                         (case get_size_comparison_data person_chest person_height gender of
                            Inl e \<Rightarrow> Inl e
                          | Inr size_data \<Rightarrow>
                              Inr \<lparr>r_success = True, r_try_on_result = try_on_result,
                                   r_comparison_grid = comparison_grid,
                                   r_fit_analysis = fit_analysis,
                                   r_size_data = size_data\<rparr>))))
      | _ \<Rightarrow> Inl ValueError)"

section \<open>Words of the specification\<close>

text \<open>
  The specification's \<^verbatim>\<open>clamp(x, lo, hi)\<close>, written from its words, to be compared with
  the \<^verbatim>\<open>max(0, ...)\<close> of the source.
\<close>

definition spec_clamp :: "real \<Rightarrow> real \<Rightarrow> real \<Rightarrow> real" where
  "spec_clamp x lo hi = max lo (min hi x)"

text \<open>The score expression of \<^verbatim>\<open>analyze_fit\<close> as a function of the two differences.\<close>

definition score_of :: "real \<Rightarrow> real \<Rightarrow> real" where
  "score_of cd ld = max 0 (100 - min (\<bar>cd\<bar> * 10) 50 - min (\<bar>ld\<bar> * 5) 20)"

section \<open>Properties of the fit scoring engine\<close>

lemma map_of_shirt_total: "\<exists>gm. map_of shirt_measurements sel = Some gm"
  by (cases sel) (simp_all add: shirt_measurements_def)

lemma shirt_lookup:
  "map_of shirt_measurements XS = Some (mk_measurements XS 86 66 42 59)"
  "map_of shirt_measurements S = Some (mk_measurements S 91 68 44 61)"
  "map_of shirt_measurements M = Some (mk_measurements M 97 70 46 63)"
  "map_of shirt_measurements L = Some (mk_measurements L 102 72 48 65)"
  "map_of shirt_measurements XL = Some (mk_measurements XL 107 74 50 67)"
  "map_of shirt_measurements XXL = Some (mk_measurements XXL 112 76 52 69)"
  by (simp_all add: shirt_measurements_def)

lemma analyze_fit_Some:
  assumes "map_of shirt_measurements sel = Some gm"
  shows "analyze_fit pc ph sel g =
     Inr \<lparr>recommended_size = get_recommended_size pc g, selected_size = sel,
          fit_type = fst (classify_fit (chest_cm gm - pc)),
          chest_difference_cm = chest_cm gm - pc,
          length_difference_cm = length_cm gm - ph * 0.40,
          fit_score = max 0 (100 - min (\<bar>chest_cm gm - pc\<bar> * 10) 50
                               - min (\<bar>length_cm gm - ph * 0.40\<bar> * 5) 20),
          fit_description = snd (classify_fit (chest_cm gm - pc))\<rparr>"
  using assms by (simp add: analyze_fit_def Let_def split: prod.splits)

lemma analyze_fit_total: "\<exists>fa. analyze_fit pc ph sel g = Inr fa"
proof -
  obtain gm where gm: "map_of shirt_measurements sel = Some gm"
    using map_of_shirt_total by blast
  show ?thesis unfolding analyze_fit_Some[OF gm] by blast
qed

lemma analyze_fit_fields:
  assumes "analyze_fit pc ph sel g = Inr fa"
  shows "fit_score fa = score_of (chest_difference_cm fa) (length_difference_cm fa)"
    and "fit_type fa = fst (classify_fit (chest_difference_cm fa))"
    and "fit_description fa = snd (classify_fit (chest_difference_cm fa))"
    and "selected_size fa = sel"
    and "recommended_size fa = get_recommended_size pc g"
proof -
  obtain gm where gm: "map_of shirt_measurements sel = Some gm"
    using map_of_shirt_total by blast
  have fa: "fa = \<lparr>recommended_size = get_recommended_size pc g, selected_size = sel,
          fit_type = fst (classify_fit (chest_cm gm - pc)),
          chest_difference_cm = chest_cm gm - pc,
          length_difference_cm = length_cm gm - ph * 0.40,
          fit_score = max 0 (100 - min (\<bar>chest_cm gm - pc\<bar> * 10) 50
                               - min (\<bar>length_cm gm - ph * 0.40\<bar> * 5) 20),
          fit_description = snd (classify_fit (chest_cm gm - pc))\<rparr>"
    using assms unfolding analyze_fit_Some[OF gm] by simp
  show "fit_score fa = score_of (chest_difference_cm fa) (length_difference_cm fa)"
    unfolding fa score_of_def by simp
  show "fit_type fa = fst (classify_fit (chest_difference_cm fa))"
    unfolding fa by simp
  show "fit_description fa = snd (classify_fit (chest_difference_cm fa))"
    unfolding fa by simp
  show "selected_size fa = sel" unfolding fa by simp
  show "recommended_size fa = get_recommended_size pc g" unfolding fa by simp
qed

lemma score_of_bounds:
  "score_of cd ld = spec_clamp (100 - min (\<bar>cd\<bar> * 10) 50 - min (\<bar>ld\<bar> * 5) 20) 0 100"
  "0 \<le> score_of cd ld" "score_of cd ld \<le> 100" "30 \<le> score_of cd ld"
proof -
  define cp where "cp = min (\<bar>cd\<bar> * 10) 50"
  define lp where "lp = min (\<bar>ld\<bar> * 5) 20"
  have cp: "0 \<le> cp" "cp \<le> 50" by (simp_all add: cp_def)
  have lp: "0 \<le> lp" "lp \<le> 20" by (simp_all add: lp_def)
  have s: "score_of cd ld = max 0 (100 - cp - lp)"
    by (simp add: score_of_def cp_def lp_def)
  have pos: "0 \<le> 100 - cp - lp" using cp lp by linarith
  have le: "100 - cp - lp \<le> 100" using cp lp by linarith
  have "max 0 (100 - cp - lp) = 100 - cp - lp" using pos by (rule max_absorb2)
  with s have e: "score_of cd ld = 100 - cp - lp" by (rule trans)
  have "spec_clamp (100 - cp - lp) 0 100 = 100 - cp - lp"
    unfolding spec_clamp_def using pos le by (simp add: min_absorb2 max_absorb2)
  then show "score_of cd ld = spec_clamp (100 - min (\<bar>cd\<bar> * 10) 50 - min (\<bar>ld\<bar> * 5) 20) 0 100"
    unfolding e by (simp add: cp_def lp_def)
  show "0 \<le> score_of cd ld" unfolding e using pos .
  show "score_of cd ld \<le> 100" unfolding e using le .
  show "30 \<le> score_of cd ld" unfolding e using cp lp by linarith
qed

lemma score_of_mono:
  assumes "\<bar>cd\<bar> \<le> \<bar>cd'\<bar>" and "\<bar>ld\<bar> \<le> \<bar>ld'\<bar>"
  shows "score_of cd' ld' \<le> score_of cd ld"
proof -
  have a: "min (\<bar>cd\<bar> * 10) 50 \<le> min (\<bar>cd'\<bar> * 10) 50"
    using assms(1) by (intro min.mono) simp_all
  have b: "min (\<bar>ld\<bar> * 5) 20 \<le> min (\<bar>ld'\<bar> * 5) 20"
    using assms(2) by (intro min.mono) simp_all
  have "100 - min (\<bar>cd'\<bar> * 10) 50 - min (\<bar>ld'\<bar> * 5) 20
          \<le> 100 - min (\<bar>cd\<bar> * 10) 50 - min (\<bar>ld\<bar> * 5) 20"
    using a b by linarith
  then show ?thesis
    unfolding score_of_def by (intro max.mono) simp_all
qed

lemmas eval_defs = mk_measurements_def classify_fit_def fit_tolerance_def
     get_recommended_size_def target_chest_def lower_def lower_char_def shirt_measurements_def

lemma analyze_fit_93_M:
  "analyze_fit 93 175 M ''male'' =
   Inr \<lparr>recommended_size = M, selected_size = M, fit_type = LOOSE,
        chest_difference_cm = 4, length_difference_cm = 0, fit_score = 60,
        fit_description = ''This size will be somewhat loose but comfortable''\<rparr>"
  by (simp add: analyze_fit_Some[OF shirt_lookup(3)] eval_defs)

lemma analyze_fit_95_M:
  "analyze_fit 95 175 M ''male'' =
   Inr \<lparr>recommended_size = M, selected_size = M, fit_type = PERFECT,
        chest_difference_cm = 2, length_difference_cm = 0, fit_score = 80,
        fit_description = ''This size provides an excellent fit''\<rparr>"
  by (simp add: analyze_fit_Some[OF shirt_lookup(3)] eval_defs)

text \<open>
  C1. For every chest, height, selected size and gender, \<^verbatim>\<open>analyze_fit\<close> returns an
  analysis whose chest difference is the garment's chest minus the person's, and whose
  fit type and description follow the priority chain: at most \<open>-3\<close> is TIGHT, else at
  least \<open>8\<close> is LOOSE, else within \<open>\<plusminus>2\<close> is PERFECT, else positive is LOOSE (somewhat
  loose), else TIGHT (somewhat snug). The height, hence the length difference, plays no
  part in the choice.
\<close>

theorem analyze_fit_classification:
  "\<exists>gm fa. map_of shirt_measurements sel = Some gm \<and>
      analyze_fit person_chest person_height sel gender = Inr fa \<and>
      chest_difference_cm fa = chest_cm gm - person_chest \<and>
      (fit_type fa, fit_description fa) =
        (if chest_difference_cm fa \<le> - 3
           then (TIGHT, ''This size will be tight and may restrict movement'')
         else if chest_difference_cm fa \<ge> 8
           then (LOOSE, ''This size will be loose and may look oversized'')
         else if \<bar>chest_difference_cm fa\<bar> \<le> 2
           then (PERFECT, ''This size provides an excellent fit'')
         else if chest_difference_cm fa > 0
           then (LOOSE, ''This size will be somewhat loose but comfortable'')
         else (TIGHT, ''This size will be somewhat snug but wearable''))"
proof -
  obtain gm where gm: "map_of shirt_measurements sel = Some gm"
    using map_of_shirt_total by blast
  show ?thesis
    using gm by (simp add: analyze_fit_Some classify_fit_def fit_tolerance_def)
qed

theorem analyze_fit_classification_witness:
  "\<exists>fa. analyze_fit 93 175 M ''male'' = Inr fa \<and> chest_difference_cm fa = 4 \<and>
     fit_type fa = LOOSE \<and>
     fit_description fa = ''This size will be somewhat loose but comfortable''"
  using analyze_fit_classification[where sel = M and person_chest = 93
      and person_height = 175 and gender = "''male''"]
  by (simp add: analyze_fit_93_M)

text \<open>
  C2. For every input the score of \<^verbatim>\<open>analyze_fit\<close> is the clamp to \<open>[0, 100]\<close> of
  \<open>100\<close> minus the two capped penalties; it lies in \<open>[0, 100]\<close> and is at least \<open>30\<close>.
\<close>

theorem analyze_fit_score:
  "\<exists>gm fa. map_of shirt_measurements sel = Some gm \<and>
      analyze_fit person_chest person_height sel gender = Inr fa \<and>
      chest_difference_cm fa = chest_cm gm - person_chest \<and>
      length_difference_cm fa = length_cm gm - person_height * 0.40 \<and>
      fit_score fa =
        spec_clamp (100 - min (\<bar>chest_difference_cm fa\<bar> * 10) 50
                        - min (\<bar>length_difference_cm fa\<bar> * 5) 20) 0 100 \<and>
      0 \<le> fit_score fa \<and> fit_score fa \<le> 100 \<and> 30 \<le> fit_score fa"
proof -
  obtain gm where gm: "map_of shirt_measurements sel = Some gm"
    using map_of_shirt_total by blast
  obtain fa where fa: "analyze_fit person_chest person_height sel gender = Inr fa"
    using analyze_fit_total by blast
  have cd: "chest_difference_cm fa = chest_cm gm - person_chest"
    using fa unfolding analyze_fit_Some[OF gm] by auto
  have ld: "length_difference_cm fa = length_cm gm - person_height * 0.40"
    using fa unfolding analyze_fit_Some[OF gm] by auto
  have sc: "fit_score fa = score_of (chest_difference_cm fa) (length_difference_cm fa)"
    using analyze_fit_fields(1)[OF fa] .
  show ?thesis
    using gm fa cd ld
      score_of_bounds[of "chest_difference_cm fa" "length_difference_cm fa", folded sc]
    by blast
qed

theorem analyze_fit_score_witness:
  "\<exists>fa. analyze_fit 93 175 M ''male'' = Inr fa \<and> fit_score fa = 60 \<and>
     0 \<le> fit_score fa \<and> fit_score fa \<le> 100 \<and> 30 \<le> fit_score fa"
  using analyze_fit_score[where sel = M and person_chest = 93
      and person_height = 175 and gender = "''male''"]
  by (simp add: analyze_fit_93_M)

text \<open>
  C4. Of any two analyses, the one with the larger absolute chest difference and the
  larger absolute length difference (either may stay equal) has the score that is not
  higher; and a PERFECT analysis has an absolute chest difference within
  \<^verbatim>\<open>perfect_range\<close>.
\<close>

theorem fit_score_monotone:
  assumes "analyze_fit pc1 ph1 sel1 g1 = Inr fa1"
    and "analyze_fit pc2 ph2 sel2 g2 = Inr fa2"
  shows "(\<bar>chest_difference_cm fa1\<bar> \<le> \<bar>chest_difference_cm fa2\<bar> \<and>
          \<bar>length_difference_cm fa1\<bar> \<le> \<bar>length_difference_cm fa2\<bar>
            \<longrightarrow> fit_score fa2 \<le> fit_score fa1) \<and>
         (fit_type fa1 = PERFECT \<longrightarrow> \<bar>chest_difference_cm fa1\<bar> \<le> perfect_range fit_tolerance)"
proof -
  have "fit_type fa1 = PERFECT \<longrightarrow> \<bar>chest_difference_cm fa1\<bar> \<le> perfect_range fit_tolerance"
    unfolding analyze_fit_fields(2)[OF assms(1)]
    by (simp add: classify_fit_def split: if_splits)
  moreover have "\<bar>chest_difference_cm fa1\<bar> \<le> \<bar>chest_difference_cm fa2\<bar> \<and>
          \<bar>length_difference_cm fa1\<bar> \<le> \<bar>length_difference_cm fa2\<bar>
            \<longrightarrow> fit_score fa2 \<le> fit_score fa1"
    unfolding analyze_fit_fields(1)[OF assms(1)] analyze_fit_fields(1)[OF assms(2)]
    using score_of_mono by blast
  ultimately show ?thesis by blast
qed

theorem fit_score_monotone_witness:
  "\<exists>fa1 fa2. analyze_fit 95 175 M ''male'' = Inr fa1 \<and> analyze_fit 93 175 M ''male'' = Inr fa2 \<and>
     \<bar>chest_difference_cm fa1\<bar> \<le> \<bar>chest_difference_cm fa2\<bar> \<and>
     \<bar>length_difference_cm fa1\<bar> \<le> \<bar>length_difference_cm fa2\<bar> \<and>
     fit_score fa2 \<le> fit_score fa1 \<and> fit_score fa2 = 60 \<and> fit_score fa1 = 80 \<and>
     fit_type fa1 = PERFECT \<and> \<bar>chest_difference_cm fa1\<bar> \<le> perfect_range fit_tolerance"
  using fit_score_monotone[OF analyze_fit_95_M analyze_fit_93_M]
  by (simp add: analyze_fit_95_M analyze_fit_93_M)

text \<open>
  C5. The concrete scenario: with catalog records M (chest 97, length 70) and S (chest 91),
  a person of chest 93 and height 175, gender male, is recommended M; size M gives chest
  difference 4, LOOSE with the somewhat-loose description, length difference 0 and score
  60; size S gives chest difference \<open>-2\<close> and PERFECT.
\<close>

theorem concrete_scenario:
  "map_of shirt_measurements M = Some (mk_measurements M 97 70 46 63) \<and>
   chest_cm (mk_measurements M 97 70 46 63) = 97 \<and>
   length_cm (mk_measurements M 97 70 46 63) = 70 \<and>
   map_of shirt_measurements S = Some (mk_measurements S 91 68 44 61) \<and>
   chest_cm (mk_measurements S 91 68 44 61) = 91 \<and>
   target_chest 93 ''male'' = 97 \<and>
   get_recommended_size 93 ''male'' = M \<and>
   analyze_fit 93 175 M ''male'' =
     Inr \<lparr>recommended_size = M, selected_size = M, fit_type = LOOSE,
          chest_difference_cm = 4, length_difference_cm = 0, fit_score = 60,
          fit_description = ''This size will be somewhat loose but comfortable''\<rparr> \<and>
   analyze_fit 93 175 S ''male'' =
     Inr \<lparr>recommended_size = M, selected_size = S, fit_type = PERFECT,
          chest_difference_cm = - 2, length_difference_cm = - 2, fit_score = 70,
          fit_description = ''This size provides an excellent fit''\<rparr>"
proof -
  have "analyze_fit 93 175 S ''male'' =
     Inr \<lparr>recommended_size = M, selected_size = S, fit_type = PERFECT,
          chest_difference_cm = - 2, length_difference_cm = - 2, fit_score = 70,
          fit_description = ''This size provides an excellent fit''\<rparr>"
    by (simp add: analyze_fit_Some[OF shirt_lookup(2)] eval_defs)
  moreover have "get_recommended_size 93 ''male'' = M"
    by (simp add: eval_defs)
  moreover have "target_chest 93 ''male'' = 97"
    by (simp add: target_chest_def lower_def lower_char_def)
  ultimately show ?thesis
    by (simp add: analyze_fit_93_M shirt_lookup mk_measurements_def)
qed

section \<open>The closest size\<close>

lemma closest_loop_Some:
  "(closest_loop t xs b (Some d) = b \<and> (\<forall>(s', m') \<in> set xs. d \<le> \<bar>chest_cm m' - t\<bar>)) \<or>
   (\<exists>pre ms post. xs = pre @ (closest_loop t xs b (Some d), ms) # post \<and>
      \<bar>chest_cm ms - t\<bar> < d \<and>
      (\<forall>(s', m') \<in> set pre. \<bar>chest_cm ms - t\<bar> < \<bar>chest_cm m' - t\<bar>) \<and>
      (\<forall>(s', m') \<in> set post. \<bar>chest_cm ms - t\<bar> \<le> \<bar>chest_cm m' - t\<bar>))"
proof (induction xs arbitrary: b d)
  case Nil
  then show ?case by simp
next
  case (Cons x xs)
  obtain sz ms where x: "x = (sz, ms)" by (cases x)
  let ?diff = "\<bar>chest_cm ms - t\<bar>"
  show ?case
  proof (cases "?diff < d")
    case True
    then have step: "closest_loop t (x # xs) b (Some d) = closest_loop t xs sz (Some ?diff)"
      by (simp add: x Let_def)
    from Cons.IH[of sz ?diff] show ?thesis
    proof
      assume a: "closest_loop t xs sz (Some ?diff) = sz \<and>
                 (\<forall>(s', m') \<in> set xs. ?diff \<le> \<bar>chest_cm m' - t\<bar>)"
      have "x # xs = [] @ (closest_loop t (x # xs) b (Some d), ms) # xs"
        using a step x by simp
      moreover have "\<forall>(s', m') \<in> set []. ?diff < \<bar>chest_cm m' - t\<bar>" by simp
      ultimately show ?thesis using a True by blast
    next
      assume "\<exists>pre ms' post. xs = pre @ (closest_loop t xs sz (Some ?diff), ms') # post \<and>
          \<bar>chest_cm ms' - t\<bar> < ?diff \<and>
          (\<forall>(s', m') \<in> set pre. \<bar>chest_cm ms' - t\<bar> < \<bar>chest_cm m' - t\<bar>) \<and>
          (\<forall>(s', m') \<in> set post. \<bar>chest_cm ms' - t\<bar> \<le> \<bar>chest_cm m' - t\<bar>)"
      then obtain pre ms' post where
        xs: "xs = pre @ (closest_loop t xs sz (Some ?diff), ms') # post"
        and lt: "\<bar>chest_cm ms' - t\<bar> < ?diff"
        and pre: "\<forall>(s', m') \<in> set pre. \<bar>chest_cm ms' - t\<bar> < \<bar>chest_cm m' - t\<bar>"
        and post: "\<forall>(s', m') \<in> set post. \<bar>chest_cm ms' - t\<bar> \<le> \<bar>chest_cm m' - t\<bar>"
        by blast
      have "x # xs = (x # pre) @ (closest_loop t (x # xs) b (Some d), ms') # post"
        using xs step by simp
      moreover have "\<bar>chest_cm ms' - t\<bar> < d" using lt True by linarith
      moreover have "\<forall>(s', m') \<in> set (x # pre). \<bar>chest_cm ms' - t\<bar> < \<bar>chest_cm m' - t\<bar>"
        using pre lt x by simp
      ultimately show ?thesis using post by blast
    qed
  next
    case False
    then have step: "closest_loop t (x # xs) b (Some d) = closest_loop t xs b (Some d)"
      by (simp add: x Let_def)
    from Cons.IH[of b d] show ?thesis
    proof
      assume a: "closest_loop t xs b (Some d) = b \<and>
                 (\<forall>(s', m') \<in> set xs. d \<le> \<bar>chest_cm m' - t\<bar>)"
      then have "\<forall>(s', m') \<in> set (x # xs). d \<le> \<bar>chest_cm m' - t\<bar>"
        using False x by simp
      then show ?thesis using a step by simp
    next
      assume "\<exists>pre ms' post. xs = pre @ (closest_loop t xs b (Some d), ms') # post \<and>
          \<bar>chest_cm ms' - t\<bar> < d \<and>
          (\<forall>(s', m') \<in> set pre. \<bar>chest_cm ms' - t\<bar> < \<bar>chest_cm m' - t\<bar>) \<and>
          (\<forall>(s', m') \<in> set post. \<bar>chest_cm ms' - t\<bar> \<le> \<bar>chest_cm m' - t\<bar>)"
      then obtain pre ms' post where
        xs: "xs = pre @ (closest_loop t xs b (Some d), ms') # post"
        and lt: "\<bar>chest_cm ms' - t\<bar> < d"
        and pre: "\<forall>(s', m') \<in> set pre. \<bar>chest_cm ms' - t\<bar> < \<bar>chest_cm m' - t\<bar>"
        and post: "\<forall>(s', m') \<in> set post. \<bar>chest_cm ms' - t\<bar> \<le> \<bar>chest_cm m' - t\<bar>"
        by blast
      have "x # xs = (x # pre) @ (closest_loop t (x # xs) b (Some d), ms') # post"
        using xs step by simp
      moreover have "\<forall>(s', m') \<in> set (x # pre). \<bar>chest_cm ms' - t\<bar> < \<bar>chest_cm m' - t\<bar>"
        using pre lt False x by simp
      ultimately show ?thesis using post lt by blast
    qed
  qed
qed

lemma closest_loop_None:
  assumes "xs \<noteq> []"
  shows "\<exists>pre ms post. xs = pre @ (closest_loop t xs b None, ms) # post \<and>
      (\<forall>(s', m') \<in> set pre. \<bar>chest_cm ms - t\<bar> < \<bar>chest_cm m' - t\<bar>) \<and>
      (\<forall>(s', m') \<in> set post. \<bar>chest_cm ms - t\<bar> \<le> \<bar>chest_cm m' - t\<bar>)"
proof -
  obtain sz ms rest where xs: "xs = (sz, ms) # rest"
    using assms by (cases xs) auto
  let ?diff = "\<bar>chest_cm ms - t\<bar>"
  have step: "closest_loop t xs b None = closest_loop t rest sz (Some ?diff)"
    by (simp add: xs Let_def)
  from closest_loop_Some[of t rest sz ?diff] show ?thesis
  proof
    assume a: "closest_loop t rest sz (Some ?diff) = sz \<and>
               (\<forall>(s', m') \<in> set rest. ?diff \<le> \<bar>chest_cm m' - t\<bar>)"
    have "xs = [] @ (closest_loop t xs b None, ms) # rest"
      using a step xs by simp
    moreover have "\<forall>(s', m') \<in> set []. ?diff < \<bar>chest_cm m' - t\<bar>" by simp
    ultimately show ?thesis using a by blast
  next
    assume "\<exists>pre ms' post. rest = pre @ (closest_loop t rest sz (Some ?diff), ms') # post \<and>
        \<bar>chest_cm ms' - t\<bar> < ?diff \<and>
        (\<forall>(s', m') \<in> set pre. \<bar>chest_cm ms' - t\<bar> < \<bar>chest_cm m' - t\<bar>) \<and>
        (\<forall>(s', m') \<in> set post. \<bar>chest_cm ms' - t\<bar> \<le> \<bar>chest_cm m' - t\<bar>)"
    then obtain pre ms' post where
      r: "rest = pre @ (closest_loop t rest sz (Some ?diff), ms') # post"
      and lt: "\<bar>chest_cm ms' - t\<bar> < ?diff"
      and pre: "\<forall>(s', m') \<in> set pre. \<bar>chest_cm ms' - t\<bar> < \<bar>chest_cm m' - t\<bar>"
      and post: "\<forall>(s', m') \<in> set post. \<bar>chest_cm ms' - t\<bar> \<le> \<bar>chest_cm m' - t\<bar>"
      by blast
    have "xs = ((sz, ms) # pre) @ (closest_loop t xs b None, ms') # post"
      using r step xs by simp
    moreover have "\<forall>(s', m') \<in> set ((sz, ms) # pre). \<bar>chest_cm ms' - t\<bar> < \<bar>chest_cm m' - t\<bar>"
      using pre lt by simp
    ultimately show ?thesis using post by blast
  qed
qed

lemma lower_MALE: "lower ''MALE'' = ''male''"
  by code_simp

text \<open>
  The gender is compared after lower-casing, so a value other than \<^verbatim>\<open>male\<close> and
  \<^verbatim>\<open>female\<close> can still receive the male allowance: \<^verbatim>\<open>MALE\<close> gets \<open>+4\<close>, not \<open>+3\<close>, and
  for a chest of 91 this changes the recommended size from S to M.
\<close>

theorem recommended_size_gender_counterexample:
  "''MALE'' \<noteq> ''male'' \<and> ''MALE'' \<noteq> ''female'' \<and>
   target_chest 91 ''MALE'' = 91 + 4 \<and> target_chest 91 ''MALE'' \<noteq> 91 + 3 \<and>
   get_recommended_size 91 ''MALE'' = M \<and>
   closest_loop (91 + 3) shirt_measurements M None = S"
proof -
  have t: "target_chest 91 ''MALE'' = 95"
    by (simp add: target_chest_def lower_MALE)
  have "get_recommended_size 91 ''MALE'' = M"
    unfolding get_recommended_size_def t
    by (simp add: shirt_measurements_def mk_measurements_def)
  moreover have "closest_loop (91 + 3) shirt_measurements M None = S"
    by (simp add: shirt_measurements_def mk_measurements_def)
  ultimately show ?thesis using t by simp
qed

text \<open>
  C3 (amended). \<^verbatim>\<open>get_recommended_size\<close> adds 4 when the lower-cased gender is
  \<^verbatim>\<open>male\<close>, 2 when it is \<^verbatim>\<open>female\<close> and 3 otherwise; the size returned is a member of
  the catalog, the first entry in catalog order whose chest is closest to the adjusted
  target: strictly closer than every entry before it, at least as close as every entry
  after it.
\<close>

theorem get_recommended_size_closest:
  "target_chest chest ''male'' = chest + 4 \<and>
   target_chest chest ''female'' = chest + 2 \<and>
   target_chest chest gender =
     chest + (if lower gender = ''male'' then 4 else if lower gender = ''female'' then 2 else 3) \<and>
   get_recommended_size chest gender \<in> set get_available_sizes \<and>
   (\<exists>pre ms post.
      shirt_measurements = pre @ (get_recommended_size chest gender, ms) # post \<and>
      (\<forall>(s', m') \<in> set pre.
         \<bar>chest_cm ms - target_chest chest gender\<bar> < \<bar>chest_cm m' - target_chest chest gender\<bar>) \<and>
      (\<forall>(s', m') \<in> set post.
         \<bar>chest_cm ms - target_chest chest gender\<bar> \<le> \<bar>chest_cm m' - target_chest chest gender\<bar>))"
proof -
  have ne: "shirt_measurements \<noteq> []" by (simp add: shirt_measurements_def)
  have split: "\<exists>pre ms post.
      shirt_measurements = pre @ (get_recommended_size chest gender, ms) # post \<and>
      (\<forall>(s', m') \<in> set pre.
         \<bar>chest_cm ms - target_chest chest gender\<bar> < \<bar>chest_cm m' - target_chest chest gender\<bar>) \<and>
      (\<forall>(s', m') \<in> set post.
         \<bar>chest_cm ms - target_chest chest gender\<bar> \<le> \<bar>chest_cm m' - target_chest chest gender\<bar>)"
    unfolding get_recommended_size_def by (rule closest_loop_None[OF ne])
  then obtain pre ms post where
    "shirt_measurements = pre @ (get_recommended_size chest gender, ms) # post" by blast
  then have "get_recommended_size chest gender \<in> fst ` set shirt_measurements"
    by (metis fst_conv image_eqI in_set_conv_decomp)
  then have mem: "get_recommended_size chest gender \<in> set get_available_sizes"
    by (simp add: get_available_sizes_def)
  have "target_chest chest ''male'' = chest + 4"
    by (simp add: target_chest_def lower_def lower_char_def)
  moreover have "target_chest chest ''female'' = chest + 2"
    by (simp add: target_chest_def lower_def lower_char_def)
  moreover have "target_chest chest gender =
     chest + (if lower gender = ''male'' then 4 else if lower gender = ''female'' then 2 else 3)"
    by (simp add: target_chest_def)
  ultimately show ?thesis using mem split by blast
qed

theorem get_recommended_size_closest_witness:
  "target_chest 91 ''unisex'' = 94 \<and> get_recommended_size 91 ''unisex'' = S \<and>
   S \<in> set get_available_sizes \<and>
   \<bar>chest_cm (mk_measurements S 91 68 44 61) - 94\<bar> = \<bar>chest_cm (mk_measurements M 97 70 46 63) - 94\<bar>"
proof -
  have t: "target_chest 91 ''unisex'' = 94"
    using get_recommended_size_closest[of 91 "''unisex''"]
    by (simp add: lower_def lower_char_def)
  have r: "get_recommended_size 91 ''unisex'' = S"
    unfolding get_recommended_size_def t
    by (simp add: shirt_measurements_def mk_measurements_def)
  show ?thesis
    using get_recommended_size_closest[of 91 "''unisex''"] t r
    by (simp add: mk_measurements_def)
qed

section \<open>Size comparison\<close>

lemma size_data_loop_step:
  "\<exists>e. is_recommended e = (sz = recommended) \<and>
     (\<forall>rest acc. size_data_loop pc ph g recommended (sz # rest) acc =
        size_data_loop pc ph g recommended rest (AList.update (GarmentSize_value sz) e acc))"
proof -
  obtain gm where gm: "map_of shirt_measurements sz = Some gm"
    using map_of_shirt_total by blast
  obtain fa where fa: "analyze_fit pc ph sz g = Inr fa"
    using analyze_fit_total by blast
  have "is_recommended (size_entry sz recommended fa gm) = (sz = recommended)"
    by (simp add: size_entry_def)
  moreover have "\<forall>rest acc. size_data_loop pc ph g recommended (sz # rest) acc =
        size_data_loop pc ph g recommended rest
          (AList.update (GarmentSize_value sz) (size_entry sz recommended fa gm) acc)"
    by (simp add: gm fa)
  ultimately show ?thesis by blast
qed

lemma size_data_all:
  "\<exists>e1 e2 e3 e4 e5 e6.
     size_data_loop pc ph g recommended get_available_sizes [] =
       Inr [(''XS'', e1), (''S'', e2), (''M'', e3), (''L'', e4), (''XL'', e5), (''XXL'', e6)] \<and>
     is_recommended e1 = (XS = recommended) \<and> is_recommended e2 = (S = recommended) \<and>
     is_recommended e3 = (M = recommended) \<and> is_recommended e4 = (L = recommended) \<and>
     is_recommended e5 = (XL = recommended) \<and> is_recommended e6 = (XXL = recommended)"
proof -
  obtain e1 where e1: "is_recommended e1 = (XS = recommended)"
    "\<And>rest acc. size_data_loop pc ph g recommended (XS # rest) acc =
        size_data_loop pc ph g recommended rest (AList.update ''XS'' e1 acc)"
    using size_data_loop_step[of XS recommended pc ph g] by auto
  obtain e2 where e2: "is_recommended e2 = (S = recommended)"
    "\<And>rest acc. size_data_loop pc ph g recommended (S # rest) acc =
        size_data_loop pc ph g recommended rest (AList.update ''S'' e2 acc)"
    using size_data_loop_step[of S recommended pc ph g] by auto
  obtain e3 where e3: "is_recommended e3 = (M = recommended)"
    "\<And>rest acc. size_data_loop pc ph g recommended (M # rest) acc =
        size_data_loop pc ph g recommended rest (AList.update ''M'' e3 acc)"
    using size_data_loop_step[of M recommended pc ph g] by auto
  obtain e4 where e4: "is_recommended e4 = (L = recommended)"
    "\<And>rest acc. size_data_loop pc ph g recommended (L # rest) acc =
        size_data_loop pc ph g recommended rest (AList.update ''L'' e4 acc)"
    using size_data_loop_step[of L recommended pc ph g] by auto
  obtain e5 where e5: "is_recommended e5 = (XL = recommended)"
    "\<And>rest acc. size_data_loop pc ph g recommended (XL # rest) acc =
        size_data_loop pc ph g recommended rest (AList.update ''XL'' e5 acc)"
    using size_data_loop_step[of XL recommended pc ph g] by auto
  obtain e6 where e6: "is_recommended e6 = (XXL = recommended)"
    "\<And>rest acc. size_data_loop pc ph g recommended (XXL # rest) acc =
        size_data_loop pc ph g recommended rest (AList.update ''XXL'' e6 acc)"
    using size_data_loop_step[of XXL recommended pc ph g] by auto
  have "size_data_loop pc ph g recommended get_available_sizes [] =
       Inr [(''XS'', e1), (''S'', e2), (''M'', e3), (''L'', e4), (''XL'', e5), (''XXL'', e6)]"
    unfolding get_available_sizes_def shirt_measurements_def list.map fst_conv
      e1(2) e2(2) e3(2) e4(2) e5(2) e6(2)
    by simp
  then show ?thesis using e1(1) e2(1) e3(1) e4(1) e5(1) e6(1) by blast
qed

text \<open>
  C6. For every chest, height and gender, \<^verbatim>\<open>get_size_comparison_data\<close> returns one entry
  per catalog size, keyed by the six size labels in catalog order; exactly one entry is
  marked recommended, it is the one keyed by the size \<^verbatim>\<open>get_recommended_size\<close> returns,
  and the \<^verbatim>\<open>recommended_size\<close> field names the same size.
\<close>

theorem size_comparison_entries:
  "\<exists>r. get_size_comparison_data person_chest person_height gender = Inr r \<and>
     map fst (size_analysis r) = map GarmentSize_value get_available_sizes \<and>
     length (size_analysis r) = 6 \<and>
     distinct (map fst (size_analysis r)) \<and>
     map fst (filter (\<lambda>(k, e). is_recommended e) (size_analysis r)) =
       [GarmentSize_value (get_recommended_size person_chest gender)] \<and>
     c_recommended_size r = GarmentSize_value (get_recommended_size person_chest gender)"
proof -
  let ?rec = "get_recommended_size person_chest gender"
  obtain e1 e2 e3 e4 e5 e6 where
    sd: "size_data_loop person_chest person_height gender ?rec get_available_sizes [] =
       Inr [(''XS'', e1), (''S'', e2), (''M'', e3), (''L'', e4), (''XL'', e5), (''XXL'', e6)]"
    and es: "is_recommended e1 = (XS = ?rec)" "is_recommended e2 = (S = ?rec)"
      "is_recommended e3 = (M = ?rec)" "is_recommended e4 = (L = ?rec)"
      "is_recommended e5 = (XL = ?rec)" "is_recommended e6 = (XXL = ?rec)"
    using size_data_all[of person_chest person_height gender ?rec] by blast
  let ?sd = "[(''XS'', e1), (''S'', e2), (''M'', e3), (''L'', e4), (''XL'', e5), (''XXL'', e6)]"
  have r: "get_size_comparison_data person_chest person_height gender =
     Inr \<lparr>c_recommended_size = GarmentSize_value ?rec,
          c_person_chest = person_chest, c_person_height = person_height,
          size_analysis = ?sd\<rparr>"
    by (simp add: get_size_comparison_data_def Let_def sd)
  have keys: "map fst ?sd = map GarmentSize_value get_available_sizes"
    by (simp add: get_available_sizes_def shirt_measurements_def)
  have dist: "distinct (map fst ?sd)" by simp
  have filt: "map fst (filter (\<lambda>(k, e). is_recommended e) ?sd) = [GarmentSize_value ?rec]"
    by (cases ?rec) (simp_all add: es)
  show ?thesis
    unfolding r using keys dist filt by simp
qed

theorem size_comparison_entries_witness:
  "\<exists>r. get_size_comparison_data 93 175 ''male'' = Inr r \<and>
     map fst (size_analysis r) = [''XS'', ''S'', ''M'', ''L'', ''XL'', ''XXL''] \<and>
     length (size_analysis r) = 6 \<and>
     distinct (map fst (size_analysis r)) \<and>
     map fst (filter (\<lambda>(k, e). is_recommended e) (size_analysis r)) = [''M''] \<and>
     c_recommended_size r = ''M''"
proof -
  have rec: "GarmentSize_value (get_recommended_size 93 ''male'') = ''M''"
    by (simp add: eval_defs)
  have av: "map GarmentSize_value get_available_sizes = [''XS'', ''S'', ''M'', ''L'', ''XL'', ''XXL'']"
    by (simp add: get_available_sizes_def shirt_measurements_def)
  show ?thesis
    using size_comparison_entries[of 93 175 "''male''"] unfolding rec av .
qed

section \<open>Placement anchor\<close>

lemma placement_anchor_short:
  assumes "length lms = 12"
  shows "placement_anchor p fa (Some lms) = Inl IndexError"
proof -
  have "lms \<noteq> []" using assms by auto
  then show ?thesis
    using assms by (simp add: placement_anchor_def py_index_def)
qed

lemma placement_anchor_default:
  assumes "pose_landmarks = None \<or> (\<exists>lms. pose_landmarks = Some lms \<and> length lms \<le> 11)"
  shows "placement_anchor p fa pose_landmarks =
     Inr (int (img_w p) div 2,
          if fit_type fa = TIGHT then int (img_h p) div 4 + 20
          else if fit_type fa = LOOSE then int (img_h p) div 4 - 20
          else int (img_h p) div 4)"
  using assms by (auto simp add: placement_anchor_def Let_def)


lemma overlay_short:
  assumes "length lms = 12"
  shows "apply_garment_overlay p g fa (Some lms) =
     (case cv2_resize g (fst (new_garment_size g fa)) (snd (new_garment_size g fa)) of
        Inl e \<Rightarrow> Inl e | Inr resized \<Rightarrow> Inl IndexError)"
  by (simp add: apply_garment_overlay_def placement_anchor_short[OF assms] Let_def
      split: prod.splits sum.splits)


section \<open>Placement rectangle\<close>

lemma cv2_resize_Inr:
  "cv2_resize src w h = Inr r \<Longrightarrow> 0 < w \<and> 0 < h \<and> 0 < img_w src \<and> 0 < img_h src \<and>
     r = \<lparr>img_h = nat h, img_w = nat w\<rparr>"
  by (auto simp add: cv2_resize_def split: if_splits)

lemma overlay_eq:
  assumes "new_garment_size g fa = (nw, nh)"
  shows "apply_garment_overlay p g fa lm =
    (case cv2_resize g nw nh of
       Inl e \<Rightarrow> Inl e
     | Inr rg \<Rightarrow>
        (case placement_anchor p fa lm of
           Inl e \<Rightarrow> Inl e
         | Inr (cx, ay) \<Rightarrow>
            (case (if min (max 0 (min (cx - nw div 2) (int (img_w p) - nw)) + nw) (int (img_w p))
                        - max 0 (min (cx - nw div 2) (int (img_w p) - nw)) \<noteq> nw \<or>
                      min (max 0 (min ay (int (img_h p) - nh)) + nh) (int (img_h p))
                        - max 0 (min ay (int (img_h p) - nh)) \<noteq> nh
                   then cv2_resize rg
                     (min (max 0 (min (cx - nw div 2) (int (img_w p) - nw)) + nw) (int (img_w p))
                        - max 0 (min (cx - nw div 2) (int (img_w p) - nw)))
                     (min (max 0 (min ay (int (img_h p) - nh)) + nh) (int (img_h p))
                        - max 0 (min ay (int (img_h p) - nh)))
                   else Inr rg) of
               Inl e \<Rightarrow> Inl e
             | Inr bg \<Rightarrow>
                 Inr \<lparr>o_result = p, o_center_x = cx, o_anchor_y = ay,
                      o_start_x = max 0 (min (cx - nw div 2) (int (img_w p) - nw)),
                      o_start_y = max 0 (min ay (int (img_h p) - nh)),
                      o_end_x = min (max 0 (min (cx - nw div 2) (int (img_w p) - nw)) + nw) (int (img_w p)),
                      o_end_y = min (max 0 (min ay (int (img_h p) - nh)) + nh) (int (img_h p)),
                      o_garment = bg,
                      o_alpha = fst (snd (fit_params fa))\<rparr>)))"
proof -
  obtain sf al wa ha where fp: "fit_params fa = (sf, al, wa, ha)"
    by (cases "fit_params fa") auto
  show ?thesis
    unfolding apply_garment_overlay_def Let_def assms fp
    by (simp split: prod.splits sum.splits)
qed

lemma overlay_rect_positive:
  assumes "apply_garment_overlay p g fa lm = Inr r"
  shows "0 \<le> o_start_x r \<and> o_start_x r < o_end_x r \<and> o_end_x r \<le> int (img_w p) \<and>
         0 \<le> o_start_y r \<and> o_start_y r < o_end_y r \<and> o_end_y r \<le> int (img_h p)"
proof -
  obtain nw nh where n: "new_garment_size g fa = (nw, nh)" by (cases "new_garment_size g fa")
  note eq = overlay_eq[OF n, of p lm]
  obtain rg where rg: "cv2_resize g nw nh = Inr rg"
    using assms unfolding eq by (cases "cv2_resize g nw nh") simp_all
  obtain cx ay where an: "placement_anchor p fa lm = Inr (cx, ay)"
    using assms unfolding eq rg by (cases "placement_anchor p fa lm") auto
  define sx where "sx = max 0 (min (cx - nw div 2) (int (img_w p) - nw))"
  define sy where "sy = max 0 (min ay (int (img_h p) - nh))"
  define ex where "ex = min (sx + nw) (int (img_w p))"
  define ey where "ey = min (sy + nh) (int (img_h p))"
  have pos: "0 < nw" "0 < nh" using cv2_resize_Inr[OF rg] by simp_all
  have fin: "(case (if ex - sx \<noteq> nw \<or> ey - sy \<noteq> nh then cv2_resize rg (ex - sx) (ey - sy)
                    else Inr rg) of
               Inl e \<Rightarrow> Inl e
             | Inr bg \<Rightarrow>
                 Inr \<lparr>o_result = p, o_center_x = cx, o_anchor_y = ay,
                      o_start_x = sx, o_start_y = sy, o_end_x = ex, o_end_y = ey,
                      o_garment = bg, o_alpha = fst (snd (fit_params fa))\<rparr>) = Inr r"
    using assms unfolding eq rg an sx_def sy_def ex_def ey_def by simp
  have w: "0 < ex - sx \<and> 0 < ey - sy \<and> o_start_x r = sx \<and> o_start_y r = sy \<and>
           o_end_x r = ex \<and> o_end_y r = ey"
  proof (cases "ex - sx \<noteq> nw \<or> ey - sy \<noteq> nh")
    case True
    then obtain bg where bg: "cv2_resize rg (ex - sx) (ey - sy) = Inr bg"
      using fin by (cases "cv2_resize rg (ex - sx) (ey - sy)") simp_all
    have "0 < ex - sx \<and> 0 < ey - sy" using cv2_resize_Inr[OF bg] by simp
    moreover have "o_start_x r = sx \<and> o_start_y r = sy \<and> o_end_x r = ex \<and> o_end_y r = ey"
      using fin True bg by auto
    ultimately show ?thesis by simp
  next
    case False
    then have "ex - sx = nw" "ey - sy = nh" by simp_all
    moreover have "o_start_x r = sx \<and> o_start_y r = sy \<and> o_end_x r = ex \<and> o_end_y r = ey"
      using fin False by auto
    ultimately show ?thesis using pos by simp
  qed
  have "0 \<le> sx" unfolding sx_def by simp
  moreover have "0 \<le> sy" unfolding sy_def by simp
  moreover have "ex \<le> int (img_w p)" unfolding ex_def by simp
  moreover have "ey \<le> int (img_h p)" unfolding ey_def by simp
  ultimately show ?thesis using w by simp
qed

lemma overlay_person_smaller:
  assumes "0 < img_w p" "0 < img_h p" "0 < img_w g" "0 < img_h g"
    and "int (img_w p) < fst (new_garment_size g fa)"
    and "int (img_h p) < snd (new_garment_size g fa)"
    and "placement_anchor p fa lm = Inr a"
  shows "\<exists>r. apply_garment_overlay p g fa lm = Inr r \<and> o_start_x r = 0 \<and> o_start_y r = 0 \<and>
            o_end_x r = int (img_w p) \<and> o_end_y r = int (img_h p) \<and>
            o_garment r = p"
proof -
  obtain nw nh where n: "new_garment_size g fa = (nw, nh)" by (cases "new_garment_size g fa")
  obtain cx ay where a: "a = (cx, ay)" by (cases a)
  have nw: "int (img_w p) < nw" "0 < nw" using assms(1,5) n by simp_all
  have nh: "int (img_h p) < nh" "0 < nh" using assms(2,6) n by simp_all
  have r1: "cv2_resize g nw nh = Inr \<lparr>img_h = nat nh, img_w = nat nw\<rparr>"
    using assms(3,4) nw nh by (simp add: cv2_resize_def)
  have sx: "max 0 (min (cx - nw div 2) (int (img_w p) - nw)) = 0"
    using nw by simp
  have sy: "max 0 (min ay (int (img_h p) - nh)) = 0"
    using nh by simp
  have ex: "min (0 + nw) (int (img_w p)) = int (img_w p)" using nw by simp
  have ey: "min (0 + nh) (int (img_h p)) = int (img_h p)" using nh by simp
  have r2: "cv2_resize \<lparr>img_h = nat nh, img_w = nat nw\<rparr> (int (img_w p)) (int (img_h p)) = Inr p"
    using assms(1,2) nw nh by (simp add: cv2_resize_def)
  have m: "min nw (int (img_w p)) = int (img_w p)" "min nh (int (img_h p)) = int (img_h p)"
    using nw nh by simp_all
  show ?thesis
    unfolding overlay_eq[OF n] r1 assms(7) a
    using nw nh by (simp add: sx sy ex ey m r2)
qed

text \<open>
  C8 (amended). A call that returns has blended the garment over a rectangle of positive
  area inside the person image, so a rectangle of zero area is never composited and a
  failing call returns no image. A non-empty person image smaller than the scaled garment
  on both axes is no failure: the rectangle is clipped to the whole person image and the
  garment is resized again to that shape.
\<close>

theorem overlay_rectangle:
  "(\<forall>r. apply_garment_overlay p g fa lm = Inr r \<longrightarrow>
       0 \<le> o_start_x r \<and> o_start_x r < o_end_x r \<and> o_end_x r \<le> int (img_w p) \<and>
       0 \<le> o_start_y r \<and> o_start_y r < o_end_y r \<and> o_end_y r \<le> int (img_h p)) \<and>
   (0 < img_w p \<and> 0 < img_h p \<and> 0 < img_w g \<and> 0 < img_h g \<and>
    int (img_w p) < fst (new_garment_size g fa) \<and>
    int (img_h p) < snd (new_garment_size g fa) \<and>
    (\<exists>a. placement_anchor p fa lm = Inr a) \<longrightarrow>
      (\<exists>r. apply_garment_overlay p g fa lm = Inr r \<and> o_start_x r = 0 \<and> o_start_y r = 0 \<and>
            o_end_x r = int (img_w p) \<and> o_end_y r = int (img_h p) \<and>
            o_garment r = p))"
  using overlay_rect_positive overlay_person_smaller by blast

section \<open>Size labels\<close>

lemma upper_M: "upper ''M'' = ''M''"
  by code_simp

lemma upper_huge: "upper ''huge'' = ''HUGE''"
  by code_simp

lemma upper_xl: "upper ''xl'' = ''XL''"
  by code_simp

lemma size_enum_of_M: "size_enum_of ''M'' = M"
  unfolding size_enum_of_def upper_M by (simp add: GarmentSize_of_value_def)

lemma GarmentSize_of_value_Inr:
  "GarmentSize_of_value v = Inr sz \<Longrightarrow> GarmentSize_value sz = v"
  by (auto simp add: GarmentSize_of_value_def split: if_splits)

lemma process_size_enum:
  assumes "size_enum_of s1 = size_enum_of s2"
  shows "process_virtual_tryon_with_sizing pim gim pc ph s1 g lm =
         process_virtual_tryon_with_sizing pim gim pc ph s2 g lm"
  unfolding process_virtual_tryon_with_sizing_def assms ..

lemma process_selected:
  assumes "process_virtual_tryon_with_sizing pim gim pc ph sel g lm = Inr r"
  shows "selected_size (r_fit_analysis r) = size_enum_of sel"
proof -
  obtain person garment where pg: "pim = Some person" "gim = Some garment"
    using assms unfolding process_virtual_tryon_with_sizing_def
    by (cases pim; cases gim) simp_all
  obtain fa where fa: "analyze_fit pc ph (size_enum_of sel) g = Inr fa"
    using analyze_fit_total by blast
  have sel: "selected_size fa = size_enum_of sel"
    using analyze_fit_fields(4)[OF fa] .
  have "r_fit_analysis r = fa"
    using assms unfolding process_virtual_tryon_with_sizing_def pg
    by (auto simp add: Let_def fa split: sum.splits)
  then show ?thesis using sel by simp
qed

lemma get_size_comparison_data_total:
  "\<exists>sd. get_size_comparison_data pc ph g = Inr sd"
proof -
  obtain sd where "size_data_loop pc ph g (get_recommended_size pc g) get_available_sizes [] = Inr sd"
    using size_data_all[of pc ph g "get_recommended_size pc g"] by blast
  then show ?thesis by (simp add: get_size_comparison_data_def Let_def)
qed

lemma clip_pos:
  fixes c n pw :: int
  assumes "0 < n" and "0 < pw"
  shows "0 < min (max 0 (min c (pw - n)) + n) pw - max 0 (min c (pw - n))"
proof (cases "n \<le> pw")
  case True
  then have "max 0 (min c (pw - n)) \<le> pw - n" by simp
  then have "min (max 0 (min c (pw - n)) + n) pw = max 0 (min c (pw - n)) + n" by simp
  then show ?thesis using assms(1) by simp
next
  case False
  then have "max 0 (min c (pw - n)) = 0" by simp
  then show ?thesis using assms False by simp
qed

lemma overlay_succeeds:
  assumes "0 < img_w g" "0 < img_h g"
    and "0 < fst (new_garment_size g fa)" "0 < snd (new_garment_size g fa)"
    and "0 < img_w p" "0 < img_h p"
    and "placement_anchor p fa lm = Inr a"
  shows "\<exists>r. apply_garment_overlay p g fa lm = Inr r \<and> o_result r = p"
proof -
  obtain nw nh where n: "new_garment_size g fa = (nw, nh)" by (cases "new_garment_size g fa")
  obtain cx ay where a: "a = (cx, ay)" by (cases a)
  have nw: "0 < nw" and nh: "0 < nh" using assms(3,4) n by simp_all
  define rg where "rg = \<lparr>img_h = nat nh, img_w = nat nw\<rparr>"
  have r1: "cv2_resize g nw nh = Inr rg"
    using assms(1,2) nw nh by (simp add: cv2_resize_def rg_def)
  define sx where "sx = max 0 (min (cx - nw div 2) (int (img_w p) - nw))"
  define sy where "sy = max 0 (min ay (int (img_h p) - nh))"
  define ex where "ex = min (sx + nw) (int (img_w p))"
  define ey where "ey = min (sy + nh) (int (img_h p))"
  have pw: "0 < int (img_w p)" and ph: "0 < int (img_h p)" using assms(5,6) by simp_all
  have wpos: "0 < ex - sx" unfolding ex_def sx_def using clip_pos[OF nw pw] .
  have hpos: "0 < ey - sy" unfolding ey_def sy_def using clip_pos[OF nh ph] .
  have r2: "cv2_resize rg (ex - sx) (ey - sy) = Inr \<lparr>img_h = nat (ey - sy), img_w = nat (ex - sx)\<rparr>"
    using wpos hpos nw nh by (simp add: cv2_resize_def rg_def)
  have eq: "apply_garment_overlay p g fa lm =
     (case (if ex - sx \<noteq> nw \<or> ey - sy \<noteq> nh then cv2_resize rg (ex - sx) (ey - sy)
            else Inr rg) of
        Inl e \<Rightarrow> Inl e
      | Inr bg \<Rightarrow>
          Inr \<lparr>o_result = p, o_center_x = cx, o_anchor_y = ay,
               o_start_x = sx, o_start_y = sy, o_end_x = ex, o_end_y = ey,
               o_garment = bg, o_alpha = fst (snd (fit_params fa))\<rparr>)"
    unfolding overlay_eq[OF n] r1 assms(7) a sx_def sy_def ex_def ey_def by simp
  show ?thesis
  proof (cases "ex - sx \<noteq> nw \<or> ey - sy \<noteq> nh")
    case True
    then show ?thesis unfolding eq using r2 by simp
  next
    case False
    then show ?thesis unfolding eq by simp
  qed
qed

lemma resize_tile:
  assumes "0 < img_w p" "0 < img_h p"
  shows "cv2_resize p 300 400 = Inr \<lparr>img_h = 400, img_w = 300\<rparr>"
  using assms by (simp add: cv2_resize_def)

lemma grid_succeeds:
  assumes "0 < img_w p" "0 < img_h p"
    and "analyze_fit pc ph S g = Inr fa1" "apply_garment_overlay p gi fa1 lm = Inr r1" "o_result r1 = p"
    and "analyze_fit pc ph M g = Inr fa2" "apply_garment_overlay p gi fa2 lm = Inr r2" "o_result r2 = p"
    and "analyze_fit pc ph L g = Inr fa3" "apply_garment_overlay p gi fa3 lm = Inr r3" "o_result r3 = p"
  shows "create_size_comparison_grid p gi pc ph g lm = Inr \<lparr>img_h = 400, img_w = 900\<rparr>"
  using assms(3-11)
  by (simp add: create_size_comparison_grid_def resize_tile[OF assms(1,2)] hstack_def)

lemma process_eq:
  assumes "analyze_fit pc ph (size_enum_of sel) g = Inr fa"
    and "get_size_comparison_data pc ph g = Inr sd"
  shows "process_virtual_tryon_with_sizing (Some person) (Some garment) pc ph sel g lm =
     (case apply_garment_overlay person garment fa lm of
        Inl e \<Rightarrow> Inl e
      | Inr t \<Rightarrow>
          (case create_size_comparison_grid person garment pc ph g lm of
             Inl e \<Rightarrow> Inl e
           | Inr grid \<Rightarrow>
               Inr \<lparr>r_success = True, r_try_on_result = t, r_comparison_grid = grid,
                    r_fit_analysis = fa, r_size_data = sd\<rparr>))"
  by (simp add: process_virtual_tryon_with_sizing_def Let_def assms split: sum.splits)

text \<open>
  C9. A size label whose upper-cased form is no value of \<^verbatim>\<open>GarmentSize\<close> raises nothing:
  it is replaced by M. The analysis for M succeeds, and with both images loaded the call is
  the rest of the pipeline run on that analysis: overlay, comparison grid and size data,
  returned with \<^verbatim>\<open>success\<close> whenever the overlay and the grid go through; it equals the
  call with the label \<^verbatim>\<open>M\<close>. A label whose upper-cased form names a size runs the same
  pipeline on that size.
\<close>

theorem invalid_size_label_defaults_to_M:
  "(\<forall>e. GarmentSize_of_value (upper selected) = Inl e \<longrightarrow>
      size_enum_of selected = M \<and>
      (\<exists>fa sd. analyze_fit person_chest person_height M gender = Inr fa \<and>
            selected_size fa = M \<and>
            get_size_comparison_data person_chest person_height gender = Inr sd \<and>
            (\<forall>person garment.
               process_virtual_tryon_with_sizing (Some person) (Some garment) person_chest
                   person_height selected gender lm =
                 (case apply_garment_overlay person garment fa lm of
                    Inl e' \<Rightarrow> Inl e'
                  | Inr t \<Rightarrow>
                      (case create_size_comparison_grid person garment person_chest
                              person_height gender lm of
                         Inl e' \<Rightarrow> Inl e'
                       | Inr grid \<Rightarrow>
                           Inr \<lparr>r_success = True, r_try_on_result = t,
                                r_comparison_grid = grid, r_fit_analysis = fa,
                                r_size_data = sd\<rparr>)))) \<and>
      process_virtual_tryon_with_sizing pim gim person_chest person_height selected gender lm =
      process_virtual_tryon_with_sizing pim gim person_chest person_height ''M'' gender lm) \<and>
   (\<forall>sz. GarmentSize_of_value (upper selected) = Inr sz \<longrightarrow>
      size_enum_of selected = sz \<and> GarmentSize_value sz = upper selected \<and>
      (\<exists>fa sd. analyze_fit person_chest person_height sz gender = Inr fa \<and>
            selected_size fa = sz \<and>
            get_size_comparison_data person_chest person_height gender = Inr sd \<and>
            (\<forall>person garment.
               process_virtual_tryon_with_sizing (Some person) (Some garment) person_chest
                   person_height selected gender lm =
                 (case apply_garment_overlay person garment fa lm of
                    Inl e' \<Rightarrow> Inl e'
                  | Inr t \<Rightarrow>
                      (case create_size_comparison_grid person garment person_chest
                              person_height gender lm of
                         Inl e' \<Rightarrow> Inl e'
                       | Inr grid \<Rightarrow>
                           Inr \<lparr>r_success = True, r_try_on_result = t,
                                r_comparison_grid = grid, r_fit_analysis = fa,
                                r_size_data = sd\<rparr>)))) \<and>
      (\<forall>r. process_virtual_tryon_with_sizing pim gim person_chest person_height selected gender lm
             = Inr r \<longrightarrow> selected_size (r_fit_analysis r) = sz))"
proof -
  have run: "\<exists>fa sd. analyze_fit person_chest person_height sz gender = Inr fa \<and>
            selected_size fa = sz \<and>
            get_size_comparison_data person_chest person_height gender = Inr sd \<and>
            (\<forall>person garment.
               process_virtual_tryon_with_sizing (Some person) (Some garment) person_chest
                   person_height selected gender lm =
                 (case apply_garment_overlay person garment fa lm of
                    Inl e' \<Rightarrow> Inl e'
                  | Inr t \<Rightarrow>
                      (case create_size_comparison_grid person garment person_chest
                              person_height gender lm of
                         Inl e' \<Rightarrow> Inl e'
                       | Inr grid \<Rightarrow>
                           Inr \<lparr>r_success = True, r_try_on_result = t,
                                r_comparison_grid = grid, r_fit_analysis = fa,
                                r_size_data = sd\<rparr>)))"
    if s: "size_enum_of selected = sz" for sz
  proof -
    obtain fa where fa: "analyze_fit person_chest person_height sz gender = Inr fa"
      using analyze_fit_total by blast
    obtain sd where sd: "get_size_comparison_data person_chest person_height gender = Inr sd"
      using get_size_comparison_data_total by blast
    have fa': "analyze_fit person_chest person_height (size_enum_of selected) gender = Inr fa"
      using fa s by simp
    have "selected_size fa = sz" using analyze_fit_fields(4)[OF fa] .
    then show ?thesis using fa sd process_eq[OF fa' sd] by blast
  qed
  show ?thesis
  proof (intro conjI allI impI)
    fix e assume a: "GarmentSize_of_value (upper selected) = Inl e"
    show m: "size_enum_of selected = M" by (simp add: size_enum_of_def a)
    show "\<exists>fa sd. analyze_fit person_chest person_height M gender = Inr fa \<and>
            selected_size fa = M \<and>
            get_size_comparison_data person_chest person_height gender = Inr sd \<and>
            (\<forall>person garment.
               process_virtual_tryon_with_sizing (Some person) (Some garment) person_chest
                   person_height selected gender lm =
                 (case apply_garment_overlay person garment fa lm of
                    Inl e' \<Rightarrow> Inl e'
                  | Inr t \<Rightarrow>
                      (case create_size_comparison_grid person garment person_chest
                              person_height gender lm of
                         Inl e' \<Rightarrow> Inl e'
                       | Inr grid \<Rightarrow>
                           Inr \<lparr>r_success = True, r_try_on_result = t,
                                r_comparison_grid = grid, r_fit_analysis = fa,
                                r_size_data = sd\<rparr>)))"
      using run[OF m] .
    show "process_virtual_tryon_with_sizing pim gim person_chest person_height selected gender lm =
        process_virtual_tryon_with_sizing pim gim person_chest person_height ''M'' gender lm"
      by (rule process_size_enum) (simp add: m size_enum_of_M)
  next
    fix sz assume a: "GarmentSize_of_value (upper selected) = Inr sz"
    show s: "size_enum_of selected = sz" by (simp add: size_enum_of_def a)
    show "GarmentSize_value sz = upper selected" using a by (rule GarmentSize_of_value_Inr)
    show "\<exists>fa sd. analyze_fit person_chest person_height sz gender = Inr fa \<and>
            selected_size fa = sz \<and>
            get_size_comparison_data person_chest person_height gender = Inr sd \<and>
            (\<forall>person garment.
               process_virtual_tryon_with_sizing (Some person) (Some garment) person_chest
                   person_height selected gender lm =
                 (case apply_garment_overlay person garment fa lm of
                    Inl e' \<Rightarrow> Inl e'
                  | Inr t \<Rightarrow>
                      (case create_size_comparison_grid person garment person_chest
                              person_height gender lm of
                         Inl e' \<Rightarrow> Inl e'
                       | Inr grid \<Rightarrow>
                           Inr \<lparr>r_success = True, r_try_on_result = t,
                                r_comparison_grid = grid, r_fit_analysis = fa,
                                r_size_data = sd\<rparr>)))"
      using run[OF s] .
    fix r assume "process_virtual_tryon_with_sizing pim gim person_chest person_height selected gender lm
               = Inr r"
    then show "selected_size (r_fit_analysis r) = sz"
      using process_selected s by simp
  qed
qed

lemma analyze_fit_93_S:
  "analyze_fit 93 175 S ''male'' =
     Inr \<lparr>recommended_size = M, selected_size = S, fit_type = PERFECT,
          chest_difference_cm = - 2, length_difference_cm = - 2, fit_score = 70,
          fit_description = ''This size provides an excellent fit''\<rparr>"
  by (simp add: analyze_fit_Some[OF shirt_lookup(2)] eval_defs)

lemma analyze_fit_93_L:
  "analyze_fit 93 175 L ''male'' =
     Inr \<lparr>recommended_size = M, selected_size = L, fit_type = LOOSE,
          chest_difference_cm = 9, length_difference_cm = 2, fit_score = 40,
          fit_description = ''This size will be loose and may look oversized''\<rparr>"
  by (simp add: analyze_fit_Some[OF shirt_lookup(4)] eval_defs)

lemma overlay_example:
  assumes "analyze_fit 93 175 sz ''male'' = Inr fa" and "sz = S \<or> sz = M \<or> sz = L"
  shows "\<exists>r. apply_garment_overlay \<lparr>img_h = 480, img_w = 640\<rparr> \<lparr>img_h = 200, img_w = 200\<rparr> fa None
               = Inr r \<and> o_result r = \<lparr>img_h = 480, img_w = 640\<rparr>"
proof (rule overlay_succeeds)
  show "placement_anchor \<lparr>img_h = 480, img_w = 640\<rparr> fa None =
     Inr (int (img_w \<lparr>img_h = 480, img_w = 640\<rparr>) div 2,
          if fit_type fa = TIGHT then int (img_h \<lparr>img_h = 480, img_w = 640\<rparr>) div 4 + 20
          else if fit_type fa = LOOSE then int (img_h \<lparr>img_h = 480, img_w = 640\<rparr>) div 4 - 20
          else int (img_h \<lparr>img_h = 480, img_w = 640\<rparr>) div 4)"
    by (rule placement_anchor_default) simp
  show "0 < fst (new_garment_size \<lparr>img_h = 200, img_w = 200\<rparr> fa)"
    using assms
    by (auto simp add: analyze_fit_93_S analyze_fit_93_M analyze_fit_93_L
        new_garment_size_def fit_params_def py_int_def)
  show "0 < snd (new_garment_size \<lparr>img_h = 200, img_w = 200\<rparr> fa)"
    using assms
    by (auto simp add: analyze_fit_93_S analyze_fit_93_M analyze_fit_93_L
        new_garment_size_def fit_params_def py_int_def)
qed simp_all

theorem invalid_size_label_defaults_to_M_witness:
  "GarmentSize_of_value (upper ''huge'') = Inl ValueError \<and>
   size_enum_of ''huge'' = M \<and>
   (\<exists>r. process_virtual_tryon_with_sizing (Some \<lparr>img_h = 480, img_w = 640\<rparr>)
          (Some \<lparr>img_h = 200, img_w = 200\<rparr>) 93 175 ''huge'' ''male'' None = Inr r \<and>
        r_success r \<and> selected_size (r_fit_analysis r) = M \<and>
        fit_type (r_fit_analysis r) = LOOSE \<and>
        r_comparison_grid r = \<lparr>img_h = 400, img_w = 900\<rparr>) \<and>
   GarmentSize_of_value (upper ''xl'') = Inr XL \<and>
   size_enum_of ''xl'' = XL \<and>
   GarmentSize_of_value (upper [CHR 0xC5, CHR 0xBF]) = Inr S \<and>
   size_enum_of [CHR 0xC5, CHR 0xBF] = S"
proof -
  let ?p = "\<lparr>img_h = 480, img_w = 640\<rparr>"
  let ?g = "\<lparr>img_h = 200, img_w = 200\<rparr>"
  have h: "GarmentSize_of_value (upper ''huge'') = Inl ValueError"
    unfolding upper_huge by (simp add: GarmentSize_of_value_def)
  have x: "GarmentSize_of_value (upper ''xl'') = Inr XL"
    unfolding upper_xl by (simp add: GarmentSize_of_value_def)
  have ls: "GarmentSize_of_value (upper [CHR 0xC5, CHR 0xBF]) = Inr S"
    by (simp add: two_byte_upper_def GarmentSize_of_value_def)
  note huge = invalid_size_label_defaults_to_M[where selected = "''huge''"
        and pim = "Some ?p" and gim = "Some ?g"
        and person_chest = 93 and person_height = 175 and gender = "''male''" and lm = None]
  note xl = invalid_size_label_defaults_to_M[where selected = "''xl''"
        and pim = "Some ?p" and gim = "Some ?g"
        and person_chest = 93 and person_height = 175 and gender = "''male''" and lm = None]
  note longs = invalid_size_label_defaults_to_M[where selected = "[CHR 0xC5, CHR 0xBF]"
        and pim = "Some ?p" and gim = "Some ?g"
        and person_chest = 93 and person_height = 175 and gender = "''male''" and lm = None]
  have m: "size_enum_of ''huge'' = M" using huge h by blast
  from huge h obtain fa sd where
    fa: "analyze_fit 93 175 M ''male'' = Inr fa"
    and sel: "selected_size fa = M"
    and run: "process_virtual_tryon_with_sizing (Some ?p) (Some ?g) 93 175 ''huge'' ''male'' None =
       (case apply_garment_overlay ?p ?g fa None of
          Inl e' \<Rightarrow> Inl e'
        | Inr t \<Rightarrow>
            (case create_size_comparison_grid ?p ?g 93 175 ''male'' None of
               Inl e' \<Rightarrow> Inl e'
             | Inr grid \<Rightarrow>
                 Inr \<lparr>r_success = True, r_try_on_result = t, r_comparison_grid = grid,
                      r_fit_analysis = fa, r_size_data = sd\<rparr>))"
    by blast
  have ft: "fit_type fa = LOOSE" using fa by (simp add: analyze_fit_93_M) auto
  obtain t where t: "apply_garment_overlay ?p ?g fa None = Inr t"
    using overlay_example[OF fa] by blast
  obtain fa1 where fa1: "analyze_fit 93 175 S ''male'' = Inr fa1" using analyze_fit_total by blast
  obtain fa3 where fa3: "analyze_fit 93 175 L ''male'' = Inr fa3" using analyze_fit_total by blast
  obtain r1 where r1: "apply_garment_overlay ?p ?g fa1 None = Inr r1" "o_result r1 = ?p"
    using overlay_example[OF fa1] by blast
  obtain r2 where r2: "apply_garment_overlay ?p ?g fa None = Inr r2" "o_result r2 = ?p"
    using overlay_example[OF fa] by blast
  obtain r3 where r3: "apply_garment_overlay ?p ?g fa3 None = Inr r3" "o_result r3 = ?p"
    using overlay_example[OF fa3] by blast
  have grid: "create_size_comparison_grid ?p ?g 93 175 ''male'' None = Inr \<lparr>img_h = 400, img_w = 900\<rparr>"
    by (rule grid_succeeds[OF _ _ fa1 r1 fa r2 fa3 r3]) simp_all
  have "\<exists>r. process_virtual_tryon_with_sizing (Some ?p) (Some ?g) 93 175 ''huge'' ''male'' None = Inr r \<and>
        r_success r \<and> selected_size (r_fit_analysis r) = M \<and>
        fit_type (r_fit_analysis r) = LOOSE \<and>
        r_comparison_grid r = \<lparr>img_h = 400, img_w = 900\<rparr>"
    unfolding run t grid using sel ft by simp
  moreover have "size_enum_of ''xl'' = XL" using xl x by blast
  moreover have "size_enum_of [CHR 0xC5, CHR 0xBF] = S" using longs ls by blast
  ultimately show ?thesis using h x ls m by blast
qed


section \<open>Concrete compositing scenarios\<close>

lemma new_garment_size_perfect:
  "new_garment_size \<lparr>img_h = 200, img_w = 200\<rparr>
     \<lparr>recommended_size = M, selected_size = M, fit_type = PERFECT,
      chest_difference_cm = 2, length_difference_cm = 0, fit_score = 80,
      fit_description = ''This size provides an excellent fit''\<rparr> = (200, 200)"
  by (simp add: new_garment_size_def fit_params_def py_int_def)

lemma anchor_default_100:
  "placement_anchor \<lparr>img_h = 100, img_w = 100\<rparr>
     \<lparr>recommended_size = M, selected_size = M, fit_type = PERFECT,
      chest_difference_cm = 2, length_difference_cm = 0, fit_score = 80,
      fit_description = ''This size provides an excellent fit''\<rparr> None = Inr (50, 25)"
  by (simp add: placement_anchor_def)

text \<open>
  A person image of \<open>100 \<times> 100\<close> under a garment scaled to \<open>200 \<times> 200\<close> is smaller than
  the placement rectangle on both axes, and the call returns: the garment is resized to
  the whole person image and blended there.
\<close>

theorem overlay_small_person_counterexample:
  "new_garment_size \<lparr>img_h = 200, img_w = 200\<rparr>
     \<lparr>recommended_size = M, selected_size = M, fit_type = PERFECT,
      chest_difference_cm = 2, length_difference_cm = 0, fit_score = 80,
      fit_description = ''This size provides an excellent fit''\<rparr> = (200, 200) \<and>
   apply_garment_overlay \<lparr>img_h = 100, img_w = 100\<rparr> \<lparr>img_h = 200, img_w = 200\<rparr>
     \<lparr>recommended_size = M, selected_size = M, fit_type = PERFECT,
      chest_difference_cm = 2, length_difference_cm = 0, fit_score = 80,
      fit_description = ''This size provides an excellent fit''\<rparr> None =
   Inr \<lparr>o_result = \<lparr>img_h = 100, img_w = 100\<rparr>, o_center_x = 50, o_anchor_y = 25,
        o_start_x = 0, o_start_y = 0, o_end_x = 100, o_end_y = 100,
        o_garment = \<lparr>img_h = 100, img_w = 100\<rparr>, o_alpha = 0.8\<rparr>"
proof -
  have "fit_params \<lparr>recommended_size = M, selected_size = M, fit_type = PERFECT,
      chest_difference_cm = 2, length_difference_cm = 0, fit_score = 80,
      fit_description = ''This size provides an excellent fit''\<rparr> = (1.0, 0.8, 1.0, 1.0)"
    by (simp add: fit_params_def)
  then show ?thesis
    unfolding overlay_eq[OF new_garment_size_perfect] anchor_default_100
    by (simp add: new_garment_size_perfect cv2_resize_def)
qed

theorem overlay_rectangle_witness:
  "\<exists>r. apply_garment_overlay \<lparr>img_h = 100, img_w = 100\<rparr> \<lparr>img_h = 200, img_w = 200\<rparr>
     \<lparr>recommended_size = M, selected_size = M, fit_type = PERFECT,
      chest_difference_cm = 2, length_difference_cm = 0, fit_score = 80,
      fit_description = ''This size provides an excellent fit''\<rparr> None = Inr r \<and>
     o_start_x r = 0 \<and> o_start_y r = 0 \<and> o_end_x r = 100 \<and> o_end_y r = 100 \<and>
     o_start_x r < o_end_x r \<and> o_start_y r < o_end_y r"
proof -
  let ?p = "\<lparr>img_h = 100, img_w = 100\<rparr>"
  let ?g = "\<lparr>img_h = 200, img_w = 200\<rparr>"
  let ?fa = "\<lparr>recommended_size = M, selected_size = M, fit_type = PERFECT,
      chest_difference_cm = 2, length_difference_cm = 0, fit_score = 80,
      fit_description = ''This size provides an excellent fit''\<rparr>"
  have pre: "0 < img_w ?p \<and> 0 < img_h ?p \<and> 0 < img_w ?g \<and> 0 < img_h ?g \<and>
    int (img_w ?p) < fst (new_garment_size ?g ?fa) \<and>
    int (img_h ?p) < snd (new_garment_size ?g ?fa) \<and>
    (\<exists>a. placement_anchor ?p ?fa None = Inr a)"
    by (simp add: new_garment_size_perfect anchor_default_100)
  from overlay_rectangle[of ?p ?g ?fa None] pre obtain r where
    r: "apply_garment_overlay ?p ?g ?fa None = Inr r"
    "o_start_x r = 0" "o_start_y r = 0" "o_end_x r = int (img_w ?p)" "o_end_y r = int (img_h ?p)"
    by blast
  from overlay_rectangle[of ?p ?g ?fa None] r(1) have
    "o_start_x r < o_end_x r \<and> o_start_y r < o_end_y r" by blast
  then show ?thesis using r by simp
qed

text \<open>
  C7. With 12 landmarks the shoulder entry of index 12 is not supplied, yet the
  positioning step does not take the fallback \<open>(person_w div 2, person_h div 4)\<close>, here
  \<open>(320, 120)\<close>: it raises \<^verbatim>\<open>IndexError\<close>, and so does the whole call.
\<close>

theorem anchor_twelve_landmarks_fails:
  "placement_anchor \<lparr>img_h = 480, img_w = 640\<rparr>
     \<lparr>recommended_size = M, selected_size = M, fit_type = PERFECT,
      chest_difference_cm = 2, length_difference_cm = 0, fit_score = 80,
      fit_description = ''This size provides an excellent fit''\<rparr>
     (Some (replicate 12 \<lparr>lm_x = 320, lm_y = 100\<rparr>)) = Inl IndexError \<and>
   apply_garment_overlay \<lparr>img_h = 480, img_w = 640\<rparr> \<lparr>img_h = 200, img_w = 200\<rparr>
     \<lparr>recommended_size = M, selected_size = M, fit_type = PERFECT,
      chest_difference_cm = 2, length_difference_cm = 0, fit_score = 80,
      fit_description = ''This size provides an excellent fit''\<rparr>
     (Some (replicate 12 \<lparr>lm_x = 320, lm_y = 100\<rparr>)) = Inl IndexError \<and>
   placement_anchor \<lparr>img_h = 480, img_w = 640\<rparr>
     \<lparr>recommended_size = M, selected_size = M, fit_type = PERFECT,
      chest_difference_cm = 2, length_difference_cm = 0, fit_score = 80,
      fit_description = ''This size provides an excellent fit''\<rparr> None = Inr (320, 120)"
proof -
  have len: "length (replicate 12 \<lparr>lm_x = 320::real, lm_y = 100::real\<rparr>) = 12" by simp
  have rs: "cv2_resize \<lparr>img_h = 200, img_w = 200\<rparr> 200 200 = Inr \<lparr>img_h = 200, img_w = 200\<rparr>"
    by (simp add: cv2_resize_def)
  show ?thesis
    unfolding overlay_short[OF len] placement_anchor_short[OF len] new_garment_size_perfect
    by (simp add: rs placement_anchor_def)
qed

theorem anchor_twelve_landmarks_fails_witness:
  "\<exists>e. apply_garment_overlay \<lparr>img_h = 480, img_w = 640\<rparr> \<lparr>img_h = 200, img_w = 200\<rparr>
     \<lparr>recommended_size = M, selected_size = M, fit_type = PERFECT,
      chest_difference_cm = 2, length_difference_cm = 0, fit_score = 80,
      fit_description = ''This size provides an excellent fit''\<rparr>
     (Some (replicate 12 \<lparr>lm_x = 320, lm_y = 100\<rparr>)) = Inl e"
  using anchor_twelve_landmarks_fails by blast



end
